theory Spec2Isabelle
  imports Main "HOL-Library.Char_ord" "HOL-Library.List_Lexorder"
begin

section \<open>Python values, dictionaries and exceptions\<close>

text \<open>
  The configuration tables of \<^verbatim>\<open>shared/constants.py\<close> and the cells of a sheet hold
  plain Python values. The model keeps the kinds that occur: \<^verbatim>\<open>None\<close>, booleans,
  integers and strings (floats and dates are left out). A string is a list of characters,
  one \<open>char\<close> per Python character.
\<close>

datatype py = PNone | PBool bool | PInt int | PStr string

text \<open>
  A \<^verbatim>\<open>dict\<close> with string keys is an association list in insertion order;
  \<^verbatim>\<open>d.get(k, default)\<close> is \<open>dict_get\<close>, \<^verbatim>\<open>d.keys()\<close> is \<open>dict_keys\<close>,
  \<^verbatim>\<open>k in d\<close> is \<open>dict_has\<close>.
\<close>

type_synonym 'v dict = "(string \<times> 'v) list"

definition dict_get :: "'v dict \<Rightarrow> string \<Rightarrow> 'v \<Rightarrow> 'v" where
  "dict_get d k dflt = (case map_of d k of None \<Rightarrow> dflt | Some v \<Rightarrow> v)"

definition dict_keys :: "'v dict \<Rightarrow> string list" where
  "dict_keys d = map fst d"

definition dict_has :: "'v dict \<Rightarrow> string \<Rightarrow> bool" where
  "dict_has d k = (map_of d k \<noteq> None)"

text \<open>Python truthiness (\<^verbatim>\<open>if x\<close>, \<^verbatim>\<open>not x\<close>, \<^verbatim>\<open>x or y\<close>).\<close>

fun truthy :: "py \<Rightarrow> bool" where
  "truthy PNone = False"
| "truthy (PBool b) = b"
| "truthy (PInt i) = (i \<noteq> 0)"
| "truthy (PStr s) = (s \<noteq> [])"

text \<open>
  A column label of a table read from a workbook: the text of a header cell, or the
  integer of a numeric header cell.
\<close>

datatype label = Txt string | Num int

text \<open>
  The text of an f-string is kept as its pieces: the literal parts and the interpolated
  sorted lists (\<^verbatim>\<open>{sorted(...)}\<close>), of names or of labels.
\<close>

datatype piece = Lit string | Names "string list" | Labels "label list"

text \<open>
  The exceptions the code raises or lets through. \<open>ValueError\<close>, \<open>TypeError\<close>,
  \<open>AttributeError\<close> and \<open>IndexError\<close> are Python's built-in classes;
  \<open>ValidationError\<close> (message, field), \<open>ExcelFileNotFoundError\<close> and \<open>ConfigError\<close>
  are the classes of \<^verbatim>\<open>shared/exceptions.py\<close>. Only subclasses of \<^verbatim>\<open>Exception\<close>
  are modelled.
\<close>

datatype exn =
    ValueError
  | TypeError
  | AttributeError
  | IndexError
  | ValidationError "piece list" string
  | ExcelFileNotFoundError
  | ConfigError

text \<open>\<^verbatim>\<open>isinstance(e, ValidationError)\<close>.\<close>

fun is_ValidationError :: "exn \<Rightarrow> bool" where
  "is_ValidationError (ValidationError message field) = True"
| "is_ValidationError e = False"

section \<open>The configuration tables of shared/constants.py\<close>

text \<open>
  The four tables are the globals the code reads; they are passed to every function that
  reads one. Every entry of the two style catalogs is itself a dict, as all shipped
  entries are.
\<close>

record constants =
  DECLARE_DATA_TYPE_CONFIG :: "string dict"
  MAP_DATA_TYPE_STYLE_NAME_CONFIG :: "string dict"
  DATA_TYPE_STYLE_NAME_CONFIG :: "py dict dict"
  VISUAL_STYLE_NAME_CONFIG :: "py dict dict"

definition declare_data_type_config :: "string dict" where
  "declare_data_type_config =
    [(''dated_created'', ''date_time''),
     (''date_modified'', ''date''),
     (''date_checked'', ''date_time''),
     (''date'', ''date_time''),
     (''number_no_decimal'', ''int''),
     (''number_decimal'', ''float''),
     (''currency'', ''currency''),
     (''percentage'', ''percentage'')]"

definition map_data_type_style_name_config :: "string dict" where
  "map_data_type_style_name_config =
    [(''date'', ''date_style''),
     (''date_time'', ''date_time_style''),
     (''int'', ''int_style''),
     (''float'', ''float_style''),
     (''currency'', ''currency_style''),
     (''percentage'', ''percentage_style''),
     (''default_data_type'', ''default_style'')]"

definition data_type_style_name_config :: "py dict dict" where
  \<open>data_type_style_name_config =
    [(''date_style'', [(''format'', PStr ''dd/mm/yyyy'')]),
     (''date_time_style'', [(''format'', PStr ''dd/mm/yyyy hh:mm:ss'')]),
     (''int_style'', [(''format'', PStr ''#,##0'')]),
     (''float_style'', [(''format'', PStr ''#,##0.00'')]),
     (''currency_style'', [(''format'', PStr ''"$"#,##0;[Red]-#,##0'')]),
     (''percentage_style'', [(''format'', PStr ''0.00%'')]),
     (''default_style'', [(''format'', PStr ''General'')])]\<close>

definition visual_style_name_config :: "py dict dict" where
  "visual_style_name_config =
    [(''header_style'',
       [(''font_name'', PStr ''Calibri''),
        (''font_size'', PInt 12),
        (''font_bold'', PBool True),
        (''font_italic'', PBool False),
        (''font_vertAlign'', PNone),
        (''font_underline'', PStr ''none''),
        (''font_strike'', PBool False),
        (''font_color'', PStr ''FFFFFF''),
        (''fill_type'', PStr ''solid''),
        (''fill_start_color'', PStr ''366092''),
        (''fill_end_color'', PStr ''366092''),
        (''alignment_horizontal'', PStr ''center''),
        (''alignment_vertical'', PStr ''center''),
        (''alignment_wrap_text'', PBool False)]),
     (''body_style'',
       [(''font_name'', PStr ''Calibri''),
        (''font_size'', PInt 11),
        (''font_bold'', PBool False),
        (''font_italic'', PBool False),
        (''font_vertAlign'', PNone),
        (''font_underline'', PStr ''none''),
        (''font_strike'', PBool False),
        (''font_color'', PStr ''000000''),
        (''fill_type'', PNone),
        (''fill_start_color'', PStr ''FFFFFF''),
        (''fill_end_color'', PStr ''FFFFFF''),
        (''alignment_horizontal'', PStr ''left''),
        (''alignment_vertical'', PStr ''top''),
        (''alignment_wrap_text'', PBool False)]),
     (''auto_adjust_style'',
       [(''auto_adjust_width'', PBool True),
        (''max_column_width'', PInt 60),
        (''auto_adjust_height'', PBool False),
        (''max_column_height'', PInt 15)]),
     (''alternating_style'',
       [(''alternating_rows'', PBool True),
        (''fill_start_color'', PStr ''F8F9FA''),
        (''fill_end_color'', PStr ''FFFFFF'')]),
     (''freeze_panes_style'',
       [(''mode_on'', PBool True),
        (''freeze_cell'', PStr ''B2'')]),
     (''filter_style'',
       [(''mode_on'', PBool True)])]"

text \<open>The module as it is shipped: the four tables above.\<close>

definition shared_constants :: constants where
  "shared_constants =
    \<lparr>DECLARE_DATA_TYPE_CONFIG = declare_data_type_config,
     MAP_DATA_TYPE_STYLE_NAME_CONFIG = map_data_type_style_name_config,
     DATA_TYPE_STYLE_NAME_CONFIG = data_type_style_name_config,
     VISUAL_STYLE_NAME_CONFIG = visual_style_name_config\<rparr>"

section \<open>Sheets, the workbook's style registry and the log\<close>

text \<open>
  A cell has a value and the name of its style. A sheet is the cells it holds, addressed
  by (row, column), both counted from 1, together with the column widths (by column
  index), the auto-filter range and the freeze-pane anchor.
\<close>

record cell =
  cvalue :: py
  cstyle :: string

record worksheet =
  cells :: "int \<times> int \<Rightarrow> cell option"
  column_width :: "int \<Rightarrow> int option"
  auto_filter_ref :: "string option"
  freeze_panes :: "py option"

text \<open>
  A \<^verbatim>\<open>NamedStyle\<close>: its name and the sub-objects the builder sets (\<open>None\<close> where the
  builder leaves the library's default).
\<close>

datatype font = Font py py py py py py py py
datatype pattern_fill = PatternFill py py py
datatype alignment = Alignment py py py

record named_style =
  ns_name :: string
  ns_font :: "font option"
  ns_fill :: "pattern_fill option"
  ns_alignment :: "alignment option"
  ns_number_format :: "py option"

text \<open>
  The log keeps the records of level \<open>WARNING\<close> and \<open>ERROR\<close>, each with the constant
  part of its message; \<^verbatim>\<open>debug\<close> and \<^verbatim>\<open>info\<close> records are not modelled.
\<close>

datatype level = WARNING | ERROR

type_synonym log_record = "level \<times> string"

text \<open>
  The state a formatter works on: the styles registered in its workbook, the sheet being
  formatted and the log. A procedure is a function from the state to the exception it raised
  (\<open>None\<close> when it returned) and the state it left behind.
\<close>

record state =
  named_styles :: "named_style list"
  ws :: worksheet
  log :: "log_record list"

type_synonym procedure = "state \<Rightarrow> exn option \<times> state"

definition logger_warning :: "string \<Rightarrow> state \<Rightarrow> state" where
  "logger_warning m s = s\<lparr>log := log s @ [(WARNING, m)]\<rparr>"

definition logger_error :: "string \<Rightarrow> state \<Rightarrow> state" where
  "logger_error m s = s\<lparr>log := log s @ [(ERROR, m)]\<rparr>"

section \<open>services/excel_handler/style_builder.py\<close>

text \<open>
  \<^verbatim>\<open>_build_named_style(style_name, style_type)\<close>: the style built from the entry of
  \<open>style_name\<close> in the catalog \<open>style_type\<close> names, or \<open>None\<close> with a warning when the
  entry is missing or falsy (an empty dict). The result is paired with the records logged.
\<close>

definition build_named_style ::
  "constants \<Rightarrow> string \<Rightarrow> string \<Rightarrow> named_style option \<times> log_record list" where
  "build_named_style k style_name style_type =
    (let named_style_obj =
       \<lparr>ns_name = style_name, ns_font = None, ns_fill = None, ns_alignment = None,
        ns_number_format = None\<rparr>
     in
     if style_type = ''VISUAL_STYLE_NAME_CONFIG'' then
       (case map_of (VISUAL_STYLE_NAME_CONFIG k) style_name of
          None \<Rightarrow> (None, [(WARNING, ''not found in VISUAL_STYLE_NAME_CONFIG'')])
        | Some style_name_cfg \<Rightarrow>
            if style_name_cfg = [] then
              (None, [(WARNING, ''not found in VISUAL_STYLE_NAME_CONFIG'')])
            else
              (let o1 =
                 (if dict_has style_name_cfg ''font_name'' then
                    named_style_obj\<lparr>ns_font := Some (Font
                      (dict_get style_name_cfg ''font_name'' (PStr ''Calibri''))
                      (dict_get style_name_cfg ''font_size'' (PInt 11))
                      (dict_get style_name_cfg ''font_bold'' (PBool False))
                      (dict_get style_name_cfg ''font_italic'' (PBool False))
                      (dict_get style_name_cfg ''font_vertAlign'' PNone)
                      (dict_get style_name_cfg ''font_underline'' (PStr ''none''))
                      (dict_get style_name_cfg ''font_strike'' (PBool False))
                      (dict_get style_name_cfg ''font_color'' (PStr ''000000'')))\<rparr>
                  else named_style_obj);
                   o2 =
                 (if dict_has style_name_cfg ''fill_type'' then
                    o1\<lparr>ns_fill := Some (PatternFill
                      (dict_get style_name_cfg ''fill_type'' PNone)
                      (dict_get style_name_cfg ''fill_start_color'' (PStr ''FFFFFF''))
                      (dict_get style_name_cfg ''fill_end_color'' (PStr ''FFFFFF'')))\<rparr>
                  else o1);
                   o3 =
                 (if dict_has style_name_cfg ''alignment_horizontal'' then
                    o2\<lparr>ns_alignment := Some (Alignment
                      (dict_get style_name_cfg ''alignment_horizontal'' (PStr ''left''))
                      (dict_get style_name_cfg ''alignment_vertical'' (PStr ''top''))
                      (dict_get style_name_cfg ''alignment_wrap_text'' (PBool False)))\<rparr>
                  else o2)
               in (Some o3, [])))
     else if style_type = ''DATA_TYPE_STYLE_NAME_CONFIG'' then
       (case map_of (DATA_TYPE_STYLE_NAME_CONFIG k) style_name of
          None \<Rightarrow> (None, [(WARNING, ''not found in DATA_TYPE_STYLE_NAME_CONFIG'')])
        | Some style_name_cfg \<Rightarrow>
            if style_name_cfg = [] then
              (None, [(WARNING, ''not found in DATA_TYPE_STYLE_NAME_CONFIG'')])
            else if dict_has style_name_cfg ''format'' then
              (Some (named_style_obj\<lparr>ns_number_format :=
                 Some (dict_get style_name_cfg ''format'' (PStr ''General''))\<rparr>), [])
            else (Some named_style_obj, []))
     else (Some named_style_obj, []))"

text \<open>
  \<^verbatim>\<open>build_bulk_named_style()\<close>: one call of the builder per key of the visual catalog,
  then one per key of the data-type catalog; every result is appended to the returned
  list, \<open>None\<close> included.
\<close>

definition build_bulk_named_style ::
  "constants \<Rightarrow> named_style option list \<times> log_record list" where
  "build_bulk_named_style k =
    (let visual = map (\<lambda>snc. build_named_style k snc ''VISUAL_STYLE_NAME_CONFIG'')
                    (dict_keys (VISUAL_STYLE_NAME_CONFIG k));
         data = map (\<lambda>snc. build_named_style k snc ''DATA_TYPE_STYLE_NAME_CONFIG'')
                    (dict_keys (DATA_TYPE_STYLE_NAME_CONFIG k))
     in (map fst (visual @ data), concat (map snd (visual @ data))))"

section \<open>The style registry of the workbook\<close>

text \<open>
  \<^verbatim>\<open>Workbook.add_named_style(style)\<close> belongs to the workbook library (openpyxl). Its
  list of named styles refuses an object that is not a \<^verbatim>\<open>NamedStyle\<close> with a
  \<^verbatim>\<open>TypeError\<close> and a name it already holds with a \<^verbatim>\<open>ValueError\<close>; otherwise the
  style is appended.
\<close>

definition add_named_style ::
  "named_style option \<Rightarrow> named_style list \<Rightarrow> exn + named_style list" where
  "add_named_style item registry =
    (case item of
       None \<Rightarrow> Inl TypeError
     | Some style \<Rightarrow>
         if ns_name style \<in> set (map ns_name registry) then Inl ValueError
         else Inr (registry @ [style]))"

text \<open>
  The loop \<^verbatim>\<open>for item in named_style_lst: self.wb.add_named_style(item)\<close>: it stops at
  the first exception, with the registry as the earlier items left it.
\<close>

fun register_styles ::
  "named_style option list \<Rightarrow> named_style list \<Rightarrow> exn option \<times> named_style list" where
  "register_styles [] registry = (None, registry)"
| "register_styles (item # items) registry =
    (case add_named_style item registry of
       Inl e \<Rightarrow> (Some e, registry)
     | Inr registry' \<Rightarrow> register_styles items registry')"

text \<open>
  \<^verbatim>\<open>SetSheetFormatter._init_global_styles\<close>: build the styles, register each, and on
  any exception log an error and raise the same exception again.
\<close>

definition init_global_styles :: "constants \<Rightarrow> procedure" where
  "init_global_styles k s =
    (let (named_style_lst, warnings) = build_bulk_named_style k;
         s1 = s\<lparr>log := log s @ warnings\<rparr>
     in case register_styles named_style_lst (named_styles s1) of
          (Some e, registry) \<Rightarrow>
            (Some e, logger_error ''Error initializing styles'' (s1\<lparr>named_styles := registry\<rparr>))
        | (None, registry) \<Rightarrow> (None, s1\<lparr>named_styles := registry\<rparr>))"

text \<open>
  \<^verbatim>\<open>SetSheetFormatter.__init__\<close>: the formatter exists only when the registration
  returned; an exception of \<open>init_global_styles\<close> leaves the constructor.
\<close>

definition SetSheetFormatter :: "constants \<Rightarrow> procedure" where
  "SetSheetFormatter k s =
    (case init_global_styles k s of
       (Some e, s') \<Rightarrow> (Some e, s')
     | (None, s') \<Rightarrow> (None, s'))"

section \<open>services/excel_handler/set_sheet_formatter.py: applying styles\<close>

text \<open>
  \<^verbatim>\<open>ws.cell(row=row, column=col)\<close> is the cell at the address; a cell the sheet does
  not hold yet is created there, empty and with the style \<open>Normal\<close>.
\<close>

definition get_cell :: "worksheet \<Rightarrow> int \<times> int \<Rightarrow> cell" where
  "get_cell w p =
    (case cells w p of
       None \<Rightarrow> \<lparr>cvalue = PNone, cstyle = ''Normal''\<rparr>
     | Some c \<Rightarrow> c)"

text \<open>
  \<^verbatim>\<open>ws.cell(row=row, column=col).style = name\<close>: the library replaces the style name
  of the cell when the workbook holds a named style of that name, and raises a
  \<^verbatim>\<open>ValueError\<close> otherwise, after the cell has been created. (The library also accepts
  the names of its own built-in styles, which it registers on first use; no name of the
  catalogs is one, and that path is not modelled.)
\<close>

definition set_cell_style :: "string \<Rightarrow> int \<Rightarrow> int \<Rightarrow> procedure" where
  "set_cell_style name row col s =
    (let c = get_cell (ws s) (row, col)
     in if name \<in> set (map ns_name (named_styles s))
        then (None, s\<lparr>ws := (ws s)\<lparr>cells := (cells (ws s))((row, col) \<mapsto> c\<lparr>cstyle := name\<rparr>)\<rparr>\<rparr>)
        else (Some ValueError, s\<lparr>ws := (ws s)\<lparr>cells := (cells (ws s))((row, col) \<mapsto> c)\<rparr>\<rparr>))"

text \<open>\<^verbatim>\<open>range(a, b)\<close> over Python's integers.\<close>

definition py_range :: "int \<Rightarrow> int \<Rightarrow> int list" where
  "py_range a b = [a..b - 1]"

text \<open>A \<^verbatim>\<open>for\<close> loop whose body may raise: the first exception ends the loop.\<close>

fun for_each :: "('a \<Rightarrow> procedure) \<Rightarrow> 'a list \<Rightarrow> procedure" where
  "for_each body [] s = (None, s)"
| "for_each body (x # xs) s =
    (case body x s of
       (Some e, s') \<Rightarrow> (Some e, s')
     | (None, s') \<Rightarrow> for_each body xs s')"

text \<open>
  \<^verbatim>\<open>_apply_styles(ws, row_idx, col_idx, num_rows, num_cols, applied_style_name)\<close>:
  a \<^verbatim>\<open>ValueError\<close> when a start index is below 1, else the two nested loops; an
  exception of a cell write ends both.
\<close>

definition apply_styles :: "int \<Rightarrow> int \<Rightarrow> int \<Rightarrow> int \<Rightarrow> string \<Rightarrow> procedure" where
  "apply_styles row_idx col_idx num_rows num_cols applied_style_name s =
    (if row_idx < 1 \<or> col_idx < 1 then (Some ValueError, s)
     else
       for_each (\<lambda>row. for_each (\<lambda>col. set_cell_style applied_style_name row col)
                          (py_range col_idx (col_idx + num_cols)))
                (py_range row_idx (row_idx + num_rows)) s)"

text \<open>
  \<^verbatim>\<open>format_style_header_body(ws, num_rows, num_cols)\<close>: a \<^verbatim>\<open>ValueError\<close> when a
  dimension is below 1; else the header style on row 1 and the body style on the
  \<open>num_rows - 1\<close> rows from row 2. An exception of the first call skips the second.
\<close>

definition format_style_header_body :: "int \<Rightarrow> int \<Rightarrow> procedure" where
  "format_style_header_body num_rows num_cols s =
    (if num_rows < 1 \<or> num_cols < 1 then (Some ValueError, s)
     else
       (case apply_styles 1 1 1 num_cols ''header_style'' s of
          (Some e, s') \<Rightarrow> (Some e, s')
        | (None, s') \<Rightarrow> apply_styles 2 1 (num_rows - 1) num_cols ''body_style'' s'))"

text \<open>
  The two lookups of the loop body in \<^verbatim>\<open>format_style_base_on_data_type\<close>:
  \<^verbatim>\<open>DECLARE_DATA_TYPE_CONFIG.get(col, 'default_data_type')\<close> and
  \<^verbatim>\<open>MAP_DATA_TYPE_STYLE_NAME_CONFIG.get(cfg_data_type, 'default_style')\<close>.
\<close>

definition cfg_data_type :: "constants \<Rightarrow> string \<Rightarrow> string" where
  "cfg_data_type k col = dict_get (DECLARE_DATA_TYPE_CONFIG k) col ''default_data_type''"

definition cfg_style_name :: "constants \<Rightarrow> string \<Rightarrow> string" where
  "cfg_style_name k col =
    dict_get (MAP_DATA_TYPE_STYLE_NAME_CONFIG k) (cfg_data_type k col) ''default_style''"

text \<open>
  \<^verbatim>\<open>list.index(x)\<close>: the position of the first element equal to \<open>x\<close>, counted from 0;
  \<open>None\<close> stands for the \<^verbatim>\<open>ValueError\<close> of an absent element.
\<close>

fun list_index :: "'a list \<Rightarrow> 'a \<Rightarrow> nat option" where
  "list_index [] x = None"
| "list_index (y # ys) x =
    (if y = x then Some 0 else map_option Suc (list_index ys x))"

definition type_style_body :: "constants \<Rightarrow> string list \<Rightarrow> int \<Rightarrow> string \<Rightarrow> procedure" where
  "type_style_body k column_name_lst num_rows col s =
    (case list_index column_name_lst col of
       None \<Rightarrow> (Some ValueError, s)
     | Some i \<Rightarrow> apply_styles 2 (int i + 1) num_rows 1 (cfg_style_name k col) s)"

text \<open>
  \<^verbatim>\<open>format_style_base_on_data_type(ws, column_name_lst, num_rows)\<close>: an empty list
  is a warning and a return, a negative row count a \<^verbatim>\<open>ValueError\<close>; else each name
  styles the data rows of the column at \<^verbatim>\<open>column_name_lst.index(col) + 1\<close>.
\<close>

definition format_style_base_on_data_type :: "constants \<Rightarrow> string list \<Rightarrow> int \<Rightarrow> procedure" where
  "format_style_base_on_data_type k column_name_lst num_rows s =
    (if column_name_lst = [] then (None, logger_warning ''Empty column list provided'' s)
     else if num_rows < 0 then (Some ValueError, s)
     else for_each (type_style_body k column_name_lst num_rows) column_name_lst s)"

section \<open>services/excel_handler/set_sheet_formatter.py: the cosmetic steps\<close>

text \<open>
  The three cosmetic steps call into the workbook library. What the library computes and
  when it fails is not part of the repository, so it is a parameter of the model:
  \<open>dimensions\<close> is \<^verbatim>\<open>ws.dimensions\<close>; \<open>auto_filter_error\<close> is the exception, if
  any, of \<^verbatim>\<open>ws.auto_filter.ref = v\<close>; \<open>columns\<close> is \<^verbatim>\<open>ws.columns\<close>, each column
  the (row, column) addresses of its cells; \<open>freeze_panes_error\<close> is the exception, if
  any, of \<^verbatim>\<open>ws.freeze_panes = v\<close>.
\<close>

record library =
  dimensions :: "worksheet \<Rightarrow> exn + string"
  auto_filter_error :: "string \<Rightarrow> exn option"
  columns :: "worksheet \<Rightarrow> exn + (int \<times> int) list list"
  freeze_panes_error :: "py \<Rightarrow> exn option"

text \<open>
  \<^verbatim>\<open>try: body  except Exception as e: handler\<close>: the handler runs on the state the body
  left when it raised.
\<close>

definition try_except :: "procedure \<Rightarrow> (exn \<Rightarrow> procedure) \<Rightarrow> procedure" where
  "try_except body handler s =
    (case body s of
       (None, s') \<Rightarrow> (None, s')
     | (Some e, s') \<Rightarrow> handler e s')"

text \<open>\<^verbatim>\<open>str(x)\<close> for the modelled values; integers in decimal.\<close>

definition digit_char :: "nat \<Rightarrow> char" where
  "digit_char d = char_of (48 + d)"

fun str_nat :: "nat \<Rightarrow> string" where
  "str_nat n = (if n < 10 then [digit_char n] else str_nat (n div 10) @ [digit_char (n mod 10)])"

declare str_nat.simps [simp del]

definition str_int :: "int \<Rightarrow> string" where
  "str_int i = (if i < 0 then CHR ''-'' # str_nat (nat (- i)) else str_nat (nat i))"

fun py_str :: "py \<Rightarrow> string" where
  "py_str PNone = ''None''"
| "py_str (PBool b) = (if b then ''True'' else ''False'')"
| "py_str (PInt i) = str_int i"
| "py_str (PStr s) = s"

text \<open>\<^verbatim>\<open>cell.value or ""\<close>: a falsy value is replaced by the empty string.\<close>

definition or_empty :: "py \<Rightarrow> py" where
  "or_empty v = (if truthy v then v else PStr [])"

text \<open>The value of the cell at an address; a cell the sheet does not hold is empty.\<close>

definition cell_value :: "worksheet \<Rightarrow> int \<times> int \<Rightarrow> py" where
  "cell_value w p = (case cells w p of None \<Rightarrow> PNone | Some c \<Rightarrow> cvalue c)"

text \<open>
  \<^verbatim>\<open>max([len(str(cell.value or "")) for cell in col], default=5)\<close>: the default is
  the result for a column of no cells.
\<close>

definition max_len :: "worksheet \<Rightarrow> (int \<times> int) list \<Rightarrow> int" where
  "max_len w col =
    (case map (\<lambda>p. int (length (py_str (or_empty (cell_value w p))))) col of
       [] \<Rightarrow> 5
     | l # ls \<Rightarrow> fold max ls l)"

text \<open>
  \<^verbatim>\<open>min(n, max_width)\<close> for an integer \<open>n\<close>: a number is compared (a boolean counts
  as 0 or 1), anything else is a \<^verbatim>\<open>TypeError\<close>.
\<close>

fun py_min :: "int \<Rightarrow> py \<Rightarrow> exn + int" where
  "py_min n (PInt w) = Inr (min n w)"
| "py_min n (PBool b) = Inr (min n (if b then 1 else 0))"
| "py_min n PNone = Inl TypeError"
| "py_min n (PStr v) = Inl TypeError"

text \<open>
  The body of the loop over \<^verbatim>\<open>ws.columns\<close>: the width is computed first, then
  \<^verbatim>\<open>col[0]\<close> is read (an \<^verbatim>\<open>IndexError\<close> on a column of no cells) and the width is
  stored under that cell's column.
\<close>

definition adjust_col :: "py \<Rightarrow> (int \<times> int) list \<Rightarrow> procedure" where
  "adjust_col max_width col s =
    (case py_min (max_len (ws s) col + 8) max_width of
       Inl e \<Rightarrow> (Some e, s)
     | Inr adjusted_width \<Rightarrow>
         (case col of
            [] \<Rightarrow> (Some IndexError, s)
          | p # _ \<Rightarrow>
              (None, s\<lparr>ws := (ws s)\<lparr>column_width :=
                 (column_width (ws s))(snd p \<mapsto> adjusted_width)\<rparr>\<rparr>)))"

text \<open>
  Each cosmetic step is a \<^verbatim>\<open>try\<close> block (\<open>_try\<close>) inside a handler that logs an error
  and returns.
\<close>

definition auto_adjust_cols_try :: "library \<Rightarrow> constants \<Rightarrow> procedure" where
  "auto_adjust_cols_try lib k s =
    (let auto_adjust_config = dict_get (VISUAL_STYLE_NAME_CONFIG k) ''auto_adjust_style'' []
     in if \<not> truthy (dict_get auto_adjust_config ''auto_adjust_width'' (PBool False))
        then (None, s)
        else
          (let max_width = dict_get auto_adjust_config ''max_column_width'' (PInt 60)
           in case columns lib (ws s) of
                Inl e \<Rightarrow> (Some e, s)
              | Inr cols \<Rightarrow> for_each (adjust_col max_width) cols s))"

definition auto_adjust_cols :: "library \<Rightarrow> constants \<Rightarrow> procedure" where
  "auto_adjust_cols lib k =
    try_except (auto_adjust_cols_try lib k)
      (\<lambda>e s. (None, logger_error ''Error adjusting column widths'' s))"

text \<open>
  \<^verbatim>\<open>set_filter_mode\<close>: \<^verbatim>\<open>ws.dimensions\<close> is read for the assignment and once more
  for the message that follows it.
\<close>

definition set_filter_mode_try :: "library \<Rightarrow> constants \<Rightarrow> procedure" where
  "set_filter_mode_try lib k s =
    (let filter_config = dict_get (VISUAL_STYLE_NAME_CONFIG k) ''filter_style'' []
     in if truthy (dict_get filter_config ''mode_on'' (PBool False))
        then
          (case dimensions lib (ws s) of
             Inl e \<Rightarrow> (Some e, s)
           | Inr d \<Rightarrow>
               (case auto_filter_error lib d of
                  Some e \<Rightarrow> (Some e, s)
                | None \<Rightarrow>
                    (let s' = s\<lparr>ws := (ws s)\<lparr>auto_filter_ref := Some d\<rparr>\<rparr>
                     in case dimensions lib (ws s') of
                          Inl e \<Rightarrow> (Some e, s')
                        | Inr d' \<Rightarrow> (None, s'))))
        else (None, s))"

definition set_filter_mode :: "library \<Rightarrow> constants \<Rightarrow> procedure" where
  "set_filter_mode lib k =
    try_except (set_filter_mode_try lib k)
      (\<lambda>e s. (None, logger_error ''Error setting filter mode'' s))"

definition set_freeze_panes_style_try :: "library \<Rightarrow> constants \<Rightarrow> procedure" where
  "set_freeze_panes_style_try lib k s =
    (let freeze_config = dict_get (VISUAL_STYLE_NAME_CONFIG k) ''freeze_panes_style'' []
     in if truthy (dict_get freeze_config ''mode_on'' (PBool False))
        then
          (let freeze_cell = dict_get freeze_config ''freeze_cell'' (PStr ''B2'')
           in case freeze_panes_error lib freeze_cell of
                Some e \<Rightarrow> (Some e, s)
              | None \<Rightarrow> (None, s\<lparr>ws := (ws s)\<lparr>freeze_panes := Some freeze_cell\<rparr>\<rparr>))
        else (None, s))"

definition set_freeze_panes_style :: "library \<Rightarrow> constants \<Rightarrow> procedure" where
  "set_freeze_panes_style lib k =
    try_except (set_freeze_panes_style_try lib k)
      (\<lambda>e s. (None, logger_error ''Error setting freeze panes'' s))"

section \<open>The pipeline\<close>

text \<open>
  A DataFrame: its column labels in order and its rows. The pipeline reads the labels as
  names (\<^verbatim>\<open>List[str]\<close>); the reader takes them as the workbook gives them.
\<close>

record 'l table =
  tcolumns :: "'l list"
  trows :: "py list list"

text \<open>Sequencing two statements: an exception of the first skips the second.\<close>

definition seq :: "procedure \<Rightarrow> procedure \<Rightarrow> procedure" where
  "seq m1 m2 s =
    (case m1 s of
       (Some e, s') \<Rightarrow> (Some e, s')
     | (None, s') \<Rightarrow> m2 s')"

text \<open>
  \<^verbatim>\<open>run_pipeline(ws, df)\<close>: the five steps in order, the header and body styling with
  \<^verbatim>\<open>len(df) + 1\<close> rows; any exception is logged and raised again.
\<close>

definition run_pipeline :: "library \<Rightarrow> constants \<Rightarrow> string table \<Rightarrow> procedure" where
  "run_pipeline lib k df =
    try_except
      (let col_names = tcolumns df;
           num_rows = int (length (trows df));
           num_cols = int (length (tcolumns df))
       in seq (format_style_header_body (num_rows + 1) num_cols)
         (seq (format_style_base_on_data_type k col_names num_rows)
         (seq (set_filter_mode lib k)
         (seq (auto_adjust_cols lib k)
              (set_freeze_panes_style lib k)))))
      (\<lambda>e s. (Some e, logger_error ''Error in formatting pipeline'' s))"

section \<open>services/excel_handler/excel_reader.py\<close>

text \<open>
  What the reader finds at a path: nothing, a file \<^verbatim>\<open>pd.read_excel\<close> fails on, or a
  file holding a table.
\<close>

datatype source_file = Absent | Unreadable | Holds "label table"

record ExcelReader =
  file_path :: string
  required_columns :: "string list"

text \<open>\<^verbatim>\<open>ExcelReader.__init__\<close>: \<^verbatim>\<open>required_columns or []\<close>.\<close>

definition ExcelReader_init :: "string \<Rightarrow> string list option \<Rightarrow> ExcelReader" where
  "ExcelReader_init path required =
    \<lparr>file_path = path,
     required_columns = (case required of None \<Rightarrow> [] | Some r \<Rightarrow> r)\<rparr>"

definition check_file_exists :: "(string \<Rightarrow> source_file) \<Rightarrow> ExcelReader \<Rightarrow> exn + unit" where
  "check_file_exists fs self =
    (if fs (file_path self) = Absent then Inl ExcelFileNotFoundError else Inr ())"

definition read_excel_file ::
  "(string \<Rightarrow> source_file) \<Rightarrow> ExcelReader \<Rightarrow> exn + label table" where
  "read_excel_file fs self =
    (case fs (file_path self) of
       Holds df \<Rightarrow> Inr df
     | _ \<Rightarrow> Inl ExcelFileNotFoundError)"

text \<open>
  \<^verbatim>\<open>sorted(xs)\<close> for the labels of a set: text compares with text and integers with
  integers, and comparing a text with an integer is a \<^verbatim>\<open>TypeError\<close>, which sorting two
  or more labels of both kinds cannot avoid.
\<close>

definition py_sorted :: "label list \<Rightarrow> exn + label list" where
  "py_sorted ls =
    (let strs = [s. Txt s \<leftarrow> ls]; nums = [n. Num n \<leftarrow> ls]
     in if strs \<noteq> [] \<and> nums \<noteq> [] then Inl TypeError
        else Inr (map Txt (sorted_list_of_set (set strs)) @
                  map Num (sorted_list_of_set (set nums))))"

text \<open>
  \<^verbatim>\<open>_validate_columns(df)\<close>: nothing to check for an empty list; else the required
  names that are no column of the table. When there is one, the message is built, both
  sets sorted, the missing names first, and raised as a \<^verbatim>\<open>ValidationError\<close>; an
  exception of the sorting is raised in its place.
\<close>

definition validate_columns :: "ExcelReader \<Rightarrow> label table \<Rightarrow> exn + unit" where
  "validate_columns self df =
    (if required_columns self = [] then Inr ()
     else
       (let available_cols = tcolumns df;
            required_set = set (required_columns self);
            missing_cols = required_set - set [s. Txt s \<leftarrow> available_cols]
        in if missing_cols \<noteq> {} then
             (case py_sorted available_cols of
                Inl e \<Rightarrow> Inl e
              | Inr sorted_available \<Rightarrow>
                  Inl (ValidationError
                    [Lit ''Excel file missing required columns: '',
                     Names (sorted_list_of_set missing_cols),
                     Lit ''. Available columns: '',
                     Labels sorted_available]
                    ''columns''))
           else Inr ()))"

definition read :: "(string \<Rightarrow> source_file) \<Rightarrow> ExcelReader \<Rightarrow> exn + label table" where
  "read fs self =
    (case check_file_exists fs self of
       Inl e \<Rightarrow> Inl e
     | Inr _ \<Rightarrow>
         (case read_excel_file fs self of
            Inl e \<Rightarrow> Inl e
          | Inr df \<Rightarrow>
              (case validate_columns self df of
                 Inl e \<Rightarrow> Inl e
               | Inr _ \<Rightarrow> Inr df)))"

section \<open>Concrete inputs\<close>

text \<open>A sheet that holds no cell, and a formatter state with nothing registered or logged.\<close>

definition empty_sheet :: worksheet where
  "empty_sheet =
    \<lparr>cells = (\<lambda>p. None), column_width = (\<lambda>c. None), auto_filter_ref = None,
     freeze_panes = None\<rparr>"

definition new_state :: state where
  "new_state = \<lparr>named_styles = [], ws = empty_sheet, log = []\<rparr>"

text \<open>A library every call of which fails.\<close>

definition failing_library :: library where
  "failing_library =
    \<lparr>dimensions = (\<lambda>w. Inl ValueError),
     auto_filter_error = (\<lambda>v. Some ValueError),
     columns = (\<lambda>w. Inl TypeError),
     freeze_panes_error = (\<lambda>v. Some ValueError)\<rparr>"

text \<open>The shipped tables with the entry of \<open>header_style\<close> replaced by an empty dict.\<close>

definition constants_with_empty_entry :: constants where
  "constants_with_empty_entry =
    shared_constants\<lparr>VISUAL_STYLE_NAME_CONFIG :=
      (''header_style'', []) # tl visual_style_name_config\<rparr>"

text \<open>The state a first formatter leaves: its workbook holds the styles of the shipped tables.\<close>

definition registered_state :: state where
  "registered_state = snd (SetSheetFormatter shared_constants new_state)"

text \<open>A workbook in which a style named \<open>body_style\<close> is registered already.\<close>

definition body_style_registered :: state where
  "body_style_registered =
    new_state\<lparr>named_styles :=
      [\<lparr>ns_name = ''body_style'', ns_font = None, ns_fill = None, ns_alignment = None,
        ns_number_format = None\<rparr>]\<rparr>"

text \<open>
  A sheet whose column 1 holds two cells with nothing in them (\<^verbatim>\<open>None\<close> and the empty
  string), a library that hands out this column, and a library that hands out a column of
  no cells.
\<close>

definition blank_column_state :: state where
  "blank_column_state =
    new_state\<lparr>ws := empty_sheet\<lparr>cells :=
      [(1, 1) \<mapsto> \<lparr>cvalue = PNone, cstyle = ''Normal''\<rparr>,
       (2, 1) \<mapsto> \<lparr>cvalue = PStr [], cstyle = ''Normal''\<rparr>]\<rparr>\<rparr>"

definition blank_column_library :: library where
  "blank_column_library =
    \<lparr>dimensions = (\<lambda>w. Inr ''A1:A2''),
     auto_filter_error = (\<lambda>v. None),
     columns = (\<lambda>w. Inr [[(1, 1), (2, 1)]]),
     freeze_panes_error = (\<lambda>v. None)\<rparr>"

definition no_cell_column_library :: library where
  "no_cell_column_library =
    \<lparr>dimensions = (\<lambda>w. Inr ''A1:A1''),
     auto_filter_error = (\<lambda>v. None),
     columns = (\<lambda>w. Inr [[]]),
     freeze_panes_error = (\<lambda>v. None)\<rparr>"

text \<open>
  A file system with two workbooks: one with the header cells \<open>phone\<close> and \<open>status\<close>,
  one with the header cells \<open>phone\<close> and the number 2024.
\<close>

definition phones_fs :: "string \<Rightarrow> source_file" where
  "phones_fs path =
    (if path = ''data/input/phones.xlsx''
     then Holds \<lparr>tcolumns = [Txt ''phone'', Txt ''status''],
                 trows = [[PStr ''0901'', PStr ''ok'']]\<rparr>
     else if path = ''data/input/years.xlsx''
     then Holds \<lparr>tcolumns = [Txt ''phone'', Num 2024],
                 trows = [[PStr ''0901'', PInt 7]]\<rparr>
     else Absent)"

text \<open>
  Sheets as the writer leaves them for a formatter whose workbook holds the styles of the
  shipped tables: a header row and two data rows of two columns, and a header row alone.
\<close>

definition people_state :: state where
  "people_state =
    registered_state\<lparr>ws := empty_sheet\<lparr>cells :=
      [(1, 1) \<mapsto> \<lparr>cvalue = PStr ''Name'', cstyle = ''Normal''\<rparr>,
       (1, 2) \<mapsto> \<lparr>cvalue = PStr ''date'', cstyle = ''Normal''\<rparr>,
       (2, 1) \<mapsto> \<lparr>cvalue = PStr ''Alice'', cstyle = ''Normal''\<rparr>,
       (2, 2) \<mapsto> \<lparr>cvalue = PInt 20240131, cstyle = ''Normal''\<rparr>,
       (3, 1) \<mapsto> \<lparr>cvalue = PStr ''Bob'', cstyle = ''Normal''\<rparr>,
       (3, 2) \<mapsto> \<lparr>cvalue = PInt 20240229, cstyle = ''Normal''\<rparr>]\<rparr>\<rparr>"

definition header_only_state :: state where
  "header_only_state =
    registered_state\<lparr>ws := empty_sheet\<lparr>cells :=
      [(1, 1) \<mapsto> \<lparr>cvalue = PStr ''Name'', cstyle = ''Normal''\<rparr>,
       (1, 2) \<mapsto> \<lparr>cvalue = PStr ''date'', cstyle = ''Normal''\<rparr>]\<rparr>\<rparr>"

text \<open>
  A sheet whose first and third columns carry the same name, with one data row, and a
  library for a sheet that holds a header row of two cells.
\<close>

definition duplicate_state :: state where
  "duplicate_state =
    registered_state\<lparr>ws := empty_sheet\<lparr>cells :=
      [(1, 1) \<mapsto> \<lparr>cvalue = PStr ''date'', cstyle = ''Normal''\<rparr>,
       (1, 2) \<mapsto> \<lparr>cvalue = PStr ''Name'', cstyle = ''Normal''\<rparr>,
       (1, 3) \<mapsto> \<lparr>cvalue = PStr ''date'', cstyle = ''Normal''\<rparr>,
       (2, 1) \<mapsto> \<lparr>cvalue = PInt 20240131, cstyle = ''Normal''\<rparr>,
       (2, 2) \<mapsto> \<lparr>cvalue = PStr ''Alice'', cstyle = ''Normal''\<rparr>,
       (2, 3) \<mapsto> \<lparr>cvalue = PInt 20240229, cstyle = ''Normal''\<rparr>]\<rparr>\<rparr>"

definition header_row_library :: library where
  "header_row_library =
    \<lparr>dimensions = (\<lambda>w. Inr ''A1:B1''),
     auto_filter_error = (\<lambda>v. None),
     columns = (\<lambda>w. Inr [[(1, 1)], [(1, 2)]]),
     freeze_panes_error = (\<lambda>v. None)\<rparr>"

section \<open>The style registry\<close>

lemma cfg_style_name_cases:
  "cfg_style_name shared_constants col \<in>
     {''date_style'', ''date_time_style'', ''int_style'', ''float_style'', ''currency_style'',
      ''percentage_style'', ''default_style''}"
  by (simp add: cfg_style_name_def cfg_data_type_def dict_get_def shared_constants_def
      declare_data_type_config_def map_data_type_style_name_config_def)

lemma bulk_names:
  "map (map_option ns_name) (fst (build_bulk_named_style shared_constants)) =
     [Some ''header_style'', Some ''body_style'', Some ''auto_adjust_style'',
      Some ''alternating_style'', Some ''freeze_panes_style'', Some ''filter_style'',
      Some ''date_style'', Some ''date_time_style'', Some ''int_style'', Some ''float_style'',
      Some ''currency_style'', Some ''percentage_style'', Some ''default_style'']"
  by (simp add: build_bulk_named_style_def build_named_style_def dict_keys_def dict_has_def
      shared_constants_def visual_style_name_config_def data_type_style_name_config_def)

lemma register_styles_append:
  "register_styles (xs @ ys) registry =
    (case register_styles xs registry of
       (Some e, r) \<Rightarrow> (Some e, r)
     | (None, r) \<Rightarrow> register_styles ys r)"
  by (induction xs arbitrary: registry) (auto split: sum.splits)

lemma register_styles_stops:
  assumes "i < length lst"
    and "register_styles (take i lst) registry = (None, r)"
    and "add_named_style (lst ! i) r = Inl e"
  shows "register_styles lst registry = (Some e, r)"
proof -
  have "lst = take i lst @ lst ! i # drop (Suc i) lst"
    using assms(1) by (simp add: id_take_nth_drop)
  then have "register_styles lst registry =
      register_styles (take i lst @ lst ! i # drop (Suc i) lst) registry"
    by simp
  also have "\<dots> = (Some e, r)"
    by (simp only: register_styles_append assms(2)) (simp add: assms(3))
  finally show ?thesis .
qed

lemma register_styles_fresh:
  assumes "distinct (map Some (map ns_name registry) @ map (map_option ns_name) lst)"
    and "None \<notin> set lst"
  shows "register_styles lst registry = (None, registry @ map the lst)"
  using assms
proof (induction lst arbitrary: registry)
  case Nil
  then show ?case by simp
next
  case (Cons item lst)
  from Cons.prems(2) obtain st where st: "item = Some st" by (cases item) auto
  have fresh: "ns_name st \<notin> set (map ns_name registry)"
    using Cons.prems(1) by (auto simp: st)
  have "distinct (map Some (map ns_name (registry @ [st])) @ map (map_option ns_name) lst)"
    using Cons.prems(1) by (auto simp: st)
  moreover have "None \<notin> set lst" using Cons.prems(2) by simp
  ultimately have "register_styles lst (registry @ [st]) = (None, (registry @ [st]) @ map the lst)"
    by (rule Cons.IH)
  then show ?case
    using fresh by (simp add: st add_named_style_def)
qed

lemma names_of_the:
  "None \<notin> set lst \<Longrightarrow> map Some (map ns_name (map the lst)) = map (map_option ns_name) lst"
proof (induction lst)
  case Nil
  then show ?case by simp
next
  case (Cons a lst)
  then obtain y where "a = Some y" by (cases a) auto
  with Cons show ?case by simp
qed

lemma bulk_no_None: "None \<notin> set (fst (build_bulk_named_style shared_constants))"
proof -
  have "None \<notin> set (map (map_option ns_name) (fst (build_bulk_named_style shared_constants)))"
    unfolding bulk_names by simp
  then show ?thesis
    by (auto simp: image_iff)
qed

lemma registered_names:
  "fst (SetSheetFormatter shared_constants new_state) = None"
  "map ns_name (named_styles registered_state) =
     [''header_style'', ''body_style'', ''auto_adjust_style'', ''alternating_style'',
      ''freeze_panes_style'', ''filter_style'', ''date_style'', ''date_time_style'',
      ''int_style'', ''float_style'', ''currency_style'', ''percentage_style'',
      ''default_style'']"
proof -
  obtain lst w where b: "build_bulk_named_style shared_constants = (lst, w)"
    by (cases "build_bulk_named_style shared_constants")
  have n: "map (map_option ns_name) lst = [Some ''header_style'', Some ''body_style'', Some ''auto_adjust_style'',
      Some ''alternating_style'', Some ''freeze_panes_style'', Some ''filter_style'',
      Some ''date_style'', Some ''date_time_style'', Some ''int_style'', Some ''float_style'',
      Some ''currency_style'', Some ''percentage_style'', Some ''default_style'']"
    using bulk_names by (simp add: b)
  have nn: "None \<notin> set lst" using bulk_no_None by (simp add: b)
  have "register_styles lst [] = (None, [] @ map the lst)"
    by (rule register_styles_fresh) (simp_all add: n nn)
  then have r: "SetSheetFormatter shared_constants new_state =
      (None, new_state\<lparr>log := w, named_styles := map the lst\<rparr>)"
    by (simp add: SetSheetFormatter_def init_global_styles_def b new_state_def)
  show "fst (SetSheetFormatter shared_constants new_state) = None"
    by (simp add: r)
  have "map Some (map ns_name (map the lst)) = map (map_option ns_name) lst"
    using nn by (rule names_of_the)
  then have "map Some (map ns_name (named_styles registered_state)) =
     map Some [''header_style'', ''body_style'', ''auto_adjust_style'', ''alternating_style'',
      ''freeze_panes_style'', ''filter_style'', ''date_style'', ''date_time_style'',
      ''int_style'', ''float_style'', ''currency_style'', ''percentage_style'',
      ''default_style'']"
    by (simp add: registered_state_def r n)
  then show "map ns_name (named_styles registered_state) =
     [''header_style'', ''body_style'', ''auto_adjust_style'', ''alternating_style'',
      ''freeze_panes_style'', ''filter_style'', ''date_style'', ''date_time_style'',
      ''int_style'', ''float_style'', ''currency_style'', ''percentage_style'',
      ''default_style'']"
    by (simp only: inj_map_eq_map [OF inj_Some])
qed

lemma bulk_nth:
  "\<exists>st. fst (build_bulk_named_style shared_constants) ! 0 = Some st \<and> ns_name st = ''header_style''"
  "\<exists>st. fst (build_bulk_named_style shared_constants) ! 1 = Some st \<and> ns_name st = ''body_style''"
  "length (fst (build_bulk_named_style shared_constants)) = 13"
proof -
  let ?lst = "fst (build_bulk_named_style shared_constants)"
  have len: "length (map (map_option ns_name) ?lst) = 13"
    unfolding bulk_names by simp
  then show l: "length ?lst = 13" by simp
  have "map (map_option ns_name) ?lst ! 0 = Some ''header_style''"
    unfolding bulk_names by simp
  then have "map_option ns_name (?lst ! 0) = Some ''header_style''"
    using l by simp
  then show "\<exists>st. ?lst ! 0 = Some st \<and> ns_name st = ''header_style''"
    by (cases "?lst ! 0") auto
  have "map (map_option ns_name) ?lst ! 1 = Some ''body_style''"
    unfolding bulk_names by simp
  then have "map_option ns_name (?lst ! 1) = Some ''body_style''"
    using l by simp
  then show "\<exists>st. ?lst ! 1 = Some st \<and> ns_name st = ''body_style''"
    by (cases "?lst ! 1") auto
qed



text \<open>
  C8, as the code has it. When the styles built before some style register without an
  exception and the name of that style is already in the registry, the library raises a
  \<^verbatim>\<open>ValueError\<close>; \<open>init_global_styles\<close> logs an error and raises it again, so the
  constructor of the formatter raises it too. The registry is left as the earlier
  styles made it (no later style is registered) and the sheet is not touched.
\<close>

theorem duplicate_style_aborts_init:
  assumes "i < length (fst (build_bulk_named_style k))"
    and "register_styles (take i (fst (build_bulk_named_style k))) (named_styles s) = (None, registry)"
    and "fst (build_bulk_named_style k) ! i = Some style"
    and "ns_name style \<in> set (map ns_name registry)"
  shows "SetSheetFormatter k s =
    (Some ValueError,
     s\<lparr>named_styles := registry,
       log := log s @ snd (build_bulk_named_style k) @ [(ERROR, ''Error initializing styles'')]\<rparr>)"
proof -
  obtain lst w where b: "build_bulk_named_style k = (lst, w)"
    by (cases "build_bulk_named_style k")
  have "add_named_style (lst ! i) registry = Inl ValueError"
    using assms(3,4) by (simp add: add_named_style_def b)
  with assms(1,2)
  have "register_styles lst (named_styles s) = (Some ValueError, registry)"
    by (simp add: b register_styles_stops)
  then show ?thesis
    by (simp add: SetSheetFormatter_def init_global_styles_def logger_error_def b Let_def)
qed

theorem duplicate_style_aborts_init_witness:
  "fst (SetSheetFormatter shared_constants body_style_registered) = Some ValueError \<and>
   map ns_name (named_styles (snd (SetSheetFormatter shared_constants body_style_registered))) =
     [''body_style'', ''header_style''] \<and>
   ws (snd (SetSheetFormatter shared_constants body_style_registered)) = empty_sheet"
proof -
  let ?lst = "fst (build_bulk_named_style shared_constants)"
  from bulk_nth(1) obtain h where h: "?lst ! 0 = Some h" "ns_name h = ''header_style''"
    by auto
  from bulk_nth(2) obtain b where b: "?lst ! 1 = Some b" "ns_name b = ''body_style''"
    by auto
  have len: "length ?lst = 13" by (rule bulk_nth)
  have t: "take 1 ?lst = [Some h]"
    using len h(1) by (cases ?lst) simp_all
  have r: "register_styles (take 1 ?lst) (named_styles body_style_registered) =
      (None, named_styles body_style_registered @ [h])"
    unfolding t by (simp add: add_named_style_def body_style_registered_def h(2))
  have m: "ns_name b \<in> set (map ns_name (named_styles body_style_registered @ [h]))"
    by (simp add: b(2) body_style_registered_def)
  have l: "1 < length ?lst" using len by simp
  from duplicate_style_aborts_init [OF l r b(1) m]
  show ?thesis
    by (simp add: h(2) body_style_registered_def new_state_def)
qed

text \<open>
  C8 as stated asks for a \<^verbatim>\<open>RegistryError\<close>. A first formatter on a new workbook is built
  without an exception; a second formatter on the same workbook meets the names of the
  first, and the exception that leaves its constructor is Python's \<^verbatim>\<open>ValueError\<close>. The
  repository defines no \<^verbatim>\<open>RegistryError\<close>.
\<close>

theorem second_formatter_raises_ValueError:
  "fst (SetSheetFormatter shared_constants new_state) = None \<and>
   fst (SetSheetFormatter shared_constants registered_state) = Some ValueError"
proof
  show "fst (SetSheetFormatter shared_constants new_state) = None"
    by (rule registered_names)
  obtain lst w where b: "build_bulk_named_style shared_constants = (lst, w)"
    by (cases "build_bulk_named_style shared_constants")
  from bulk_nth(1) obtain st where st: "lst ! 0 = Some st" "ns_name st = ''header_style''"
    by (auto simp: b)
  have "add_named_style (lst ! 0) (named_styles registered_state) = Inl ValueError"
    using registered_names(2) by (simp add: add_named_style_def st)
  moreover have "0 < length lst" using bulk_nth(3) by (simp add: b)
  moreover have "register_styles (take 0 lst) (named_styles registered_state) =
      (None, named_styles registered_state)"
    by simp
  ultimately have "register_styles lst (named_styles registered_state) =
      (Some ValueError, named_styles registered_state)"
    using register_styles_stops by blast
  then show "fst (SetSheetFormatter shared_constants registered_state) = Some ValueError"
    by (simp add: SetSheetFormatter_def init_global_styles_def b Let_def)
qed

text \<open>
  C7 at an empty entry. With the entry of \<open>header_style\<close> empty, the builder logs one
  warning, and the list \<open>build_bulk_named_style\<close> returns holds \<open>None\<close> at the place of
  that key, followed by the styles of all later keys: the key is not left out. The
  registration then stops at this \<open>None\<close> with a \<^verbatim>\<open>TypeError\<close>, and no style is registered.
\<close>

theorem empty_entry_is_kept_as_None:
  "map (map_option ns_name) (fst (build_bulk_named_style constants_with_empty_entry)) =
     [None, Some ''body_style'', Some ''auto_adjust_style'',
      Some ''alternating_style'', Some ''freeze_panes_style'', Some ''filter_style'',
      Some ''date_style'', Some ''date_time_style'', Some ''int_style'', Some ''float_style'',
      Some ''currency_style'', Some ''percentage_style'', Some ''default_style''] \<and>
   snd (build_bulk_named_style constants_with_empty_entry) =
     [(WARNING, ''not found in VISUAL_STYLE_NAME_CONFIG'')] \<and>
   SetSheetFormatter constants_with_empty_entry new_state =
     (Some TypeError,
      new_state\<lparr>log := [(WARNING, ''not found in VISUAL_STYLE_NAME_CONFIG''),
                         (ERROR, ''Error initializing styles'')]\<rparr>)"
proof -
  have n: "map (map_option ns_name) (fst (build_bulk_named_style constants_with_empty_entry)) =
     [None, Some ''body_style'', Some ''auto_adjust_style'',
      Some ''alternating_style'', Some ''freeze_panes_style'', Some ''filter_style'',
      Some ''date_style'', Some ''date_time_style'', Some ''int_style'', Some ''float_style'',
      Some ''currency_style'', Some ''percentage_style'', Some ''default_style'']"
    by (simp add: build_bulk_named_style_def build_named_style_def dict_keys_def dict_has_def
      constants_with_empty_entry_def
      shared_constants_def visual_style_name_config_def data_type_style_name_config_def)
  have w: "snd (build_bulk_named_style constants_with_empty_entry) =
     [(WARNING, ''not found in VISUAL_STYLE_NAME_CONFIG'')]"
    by (simp add: build_bulk_named_style_def build_named_style_def dict_keys_def dict_has_def
      constants_with_empty_entry_def
      shared_constants_def visual_style_name_config_def data_type_style_name_config_def)
  obtain lst where l: "fst (build_bulk_named_style constants_with_empty_entry) = None # lst"
    using n by (cases "fst (build_bulk_named_style constants_with_empty_entry)") auto
  have "SetSheetFormatter constants_with_empty_entry new_state =
     (Some TypeError,
      new_state\<lparr>log := [(WARNING, ''not found in VISUAL_STYLE_NAME_CONFIG''),
                         (ERROR, ''Error initializing styles'')]\<rparr>)"
    using l w
    by (cases "build_bulk_named_style constants_with_empty_entry")
       (simp add: SetSheetFormatter_def init_global_styles_def add_named_style_def
          logger_error_def new_state_def)
  with n w show ?thesis by simp
qed

section \<open>Properties of the styling loops\<close>

lemma cell_restyled: "(c :: cell)\<lparr>cstyle := n\<rparr> = \<lparr>cvalue = cvalue c, cstyle = n\<rparr>"
  by (cases c) simp

lemma set_cell_style_ok:
  assumes "n \<in> set (map ns_name (named_styles s))"
  shows "set_cell_style n row col s =
    (None, s\<lparr>ws := (ws s)\<lparr>cells := (cells (ws s))((row, col) \<mapsto>
       \<lparr>cvalue = cell_value (ws s) (row, col), cstyle = n\<rparr>)\<rparr>\<rparr>)"
  using assms
  by (simp add: set_cell_style_def get_cell_def cell_value_def Let_def cell_restyled
      split: option.splits)

lemma set_cell_style_unknown:
  assumes "n \<notin> set (map ns_name (named_styles s))"
  shows "fst (set_cell_style n row col s) = Some ValueError"
  using assms by (simp add: set_cell_style_def Let_def)

lemma for_each_cols:
  assumes "n \<in> set (map ns_name (named_styles s))"
  shows "for_each (\<lambda>col. set_cell_style n row col) cs s =
    (None, s\<lparr>ws := (ws s)\<lparr>cells := (\<lambda>p. if fst p = row \<and> snd p \<in> set cs
       then Some \<lparr>cvalue = cell_value (ws s) p, cstyle = n\<rparr> else cells (ws s) p)\<rparr>\<rparr>)"
  using assms
proof (induction cs arbitrary: s)
  case Nil
  then show ?case by simp
next
  case (Cons c cs)
  define s1 where "s1 = s\<lparr>ws := (ws s)\<lparr>cells := (cells (ws s))((row, c) \<mapsto>
       \<lparr>cvalue = cell_value (ws s) (row, c), cstyle = n\<rparr>)\<rparr>\<rparr>"
  have step: "set_cell_style n row c s = (None, s1)"
    unfolding s1_def using Cons.prems by (rule set_cell_style_ok)
  have reg: "n \<in> set (map ns_name (named_styles s1))"
    using Cons.prems by (simp add: s1_def)
  have val: "cell_value (ws s1) p = cell_value (ws s) p" for p
    by (simp add: s1_def cell_value_def)
  have cel: "cells (ws s1) p =
      (if p = (row, c) then Some \<lparr>cvalue = cell_value (ws s) p, cstyle = n\<rparr> else cells (ws s) p)"
    for p
    by (simp add: s1_def)
  have f: "(\<lambda>p. if fst p = row \<and> snd p \<in> set cs
       then Some \<lparr>cvalue = cell_value (ws s1) p, cstyle = n\<rparr> else cells (ws s1) p) =
     (\<lambda>p. if fst p = row \<and> snd p \<in> set (c # cs)
       then Some \<lparr>cvalue = cell_value (ws s) p, cstyle = n\<rparr> else cells (ws s) p)"
    by (rule ext) (auto simp: val cel)
  have g: "s1\<lparr>ws := (ws s1)\<lparr>cells := h\<rparr>\<rparr> = s\<lparr>ws := (ws s)\<lparr>cells := h\<rparr>\<rparr>" for h
    by (simp add: s1_def)
  have "for_each (\<lambda>col. set_cell_style n row col) (c # cs) s =
        for_each (\<lambda>col. set_cell_style n row col) cs s1"
    by (simp add: step)
  also have "\<dots> = (None, s1\<lparr>ws := (ws s1)\<lparr>cells := (\<lambda>p. if fst p = row \<and> snd p \<in> set cs
       then Some \<lparr>cvalue = cell_value (ws s1) p, cstyle = n\<rparr> else cells (ws s1) p)\<rparr>\<rparr>)"
    using reg by (rule Cons.IH)
  also have "\<dots> = (None, s\<lparr>ws := (ws s)\<lparr>cells := (\<lambda>p. if fst p = row \<and> snd p \<in> set (c # cs)
       then Some \<lparr>cvalue = cell_value (ws s) p, cstyle = n\<rparr> else cells (ws s) p)\<rparr>\<rparr>)"
    by (simp only: f g)
  finally show ?case .
qed

lemma for_each_rows:
  assumes "n \<in> set (map ns_name (named_styles s))"
  shows "for_each (\<lambda>row. for_each (\<lambda>col. set_cell_style n row col) cs) rs s =
    (None, s\<lparr>ws := (ws s)\<lparr>cells := (\<lambda>p. if fst p \<in> set rs \<and> snd p \<in> set cs
       then Some \<lparr>cvalue = cell_value (ws s) p, cstyle = n\<rparr> else cells (ws s) p)\<rparr>\<rparr>)"
  using assms
proof (induction rs arbitrary: s)
  case Nil
  then show ?case by simp
next
  case (Cons r rs)
  define s1 where "s1 = s\<lparr>ws := (ws s)\<lparr>cells := (\<lambda>p. if fst p = r \<and> snd p \<in> set cs
       then Some \<lparr>cvalue = cell_value (ws s) p, cstyle = n\<rparr> else cells (ws s) p)\<rparr>\<rparr>"
  have step: "for_each (\<lambda>col. set_cell_style n r col) cs s = (None, s1)"
    unfolding s1_def using Cons.prems by (rule for_each_cols)
  have reg: "n \<in> set (map ns_name (named_styles s1))"
    using Cons.prems by (simp add: s1_def)
  have val: "cell_value (ws s1) p = cell_value (ws s) p" for p
    by (simp add: s1_def cell_value_def)
  have cel: "cells (ws s1) p =
      (if fst p = r \<and> snd p \<in> set cs
       then Some \<lparr>cvalue = cell_value (ws s) p, cstyle = n\<rparr> else cells (ws s) p)"
    for p
    by (simp add: s1_def)
  have f: "(\<lambda>p. if fst p \<in> set rs \<and> snd p \<in> set cs
       then Some \<lparr>cvalue = cell_value (ws s1) p, cstyle = n\<rparr> else cells (ws s1) p) =
     (\<lambda>p. if fst p \<in> set (r # rs) \<and> snd p \<in> set cs
       then Some \<lparr>cvalue = cell_value (ws s) p, cstyle = n\<rparr> else cells (ws s) p)"
    by (rule ext) (auto simp: val cel)
  have g: "s1\<lparr>ws := (ws s1)\<lparr>cells := h\<rparr>\<rparr> = s\<lparr>ws := (ws s)\<lparr>cells := h\<rparr>\<rparr>" for h
    by (simp add: s1_def)
  have "for_each (\<lambda>row. for_each (\<lambda>col. set_cell_style n row col) cs) (r # rs) s =
        for_each (\<lambda>row. for_each (\<lambda>col. set_cell_style n row col) cs) rs s1"
    by (simp add: step)
  also have "\<dots> = (None, s1\<lparr>ws := (ws s1)\<lparr>cells := (\<lambda>p. if fst p \<in> set rs \<and> snd p \<in> set cs
       then Some \<lparr>cvalue = cell_value (ws s1) p, cstyle = n\<rparr> else cells (ws s1) p)\<rparr>\<rparr>)"
    using reg by (rule Cons.IH)
  also have "\<dots> = (None, s\<lparr>ws := (ws s)\<lparr>cells := (\<lambda>p. if fst p \<in> set (r # rs) \<and> snd p \<in> set cs
       then Some \<lparr>cvalue = cell_value (ws s) p, cstyle = n\<rparr> else cells (ws s) p)\<rparr>\<rparr>)"
    by (simp only: f g)
  finally show ?case .
qed

lemma set_py_range: "set (py_range a b) = {i. a \<le> i \<and> i < b}"
  by (auto simp: py_range_def)

lemma py_range_empty: "b \<le> a \<Longrightarrow> py_range a b = []"
  by (simp add: py_range_def)

lemma apply_styles_ok:
  assumes "1 \<le> row_idx" and "1 \<le> col_idx"
    and "n \<in> set (map ns_name (named_styles s))"
  shows "apply_styles row_idx col_idx num_rows num_cols n s =
   (None, s\<lparr>ws := (ws s)\<lparr>cells := (\<lambda>p.
      if row_idx \<le> fst p \<and> fst p < row_idx + num_rows \<and>
         col_idx \<le> snd p \<and> snd p < col_idx + num_cols
      then Some \<lparr>cvalue = cell_value (ws s) p, cstyle = n\<rparr> else cells (ws s) p)\<rparr>\<rparr>)"
  using assms(1,2)
  by (simp add: apply_styles_def for_each_rows [OF assms(3)] set_py_range)

lemma apply_styles_no_rows:
  assumes "1 \<le> row_idx" and "1 \<le> col_idx" and "num_rows \<le> 0"
  shows "apply_styles row_idx col_idx num_rows num_cols n s = (None, s)"
  using assms by (simp add: apply_styles_def py_range_empty)

lemma format_style_header_body_ok:
  assumes "1 \<le> N" and "1 \<le> C"
    and "''header_style'' \<in> set (map ns_name (named_styles s))"
    and "2 \<le> N \<Longrightarrow> ''body_style'' \<in> set (map ns_name (named_styles s))"
  shows "format_style_header_body N C s =
    (None, s\<lparr>ws := (ws s)\<lparr>cells := (\<lambda>(r, c).
       if r = 1 \<and> 1 \<le> c \<and> c \<le> C
         then Some \<lparr>cvalue = cell_value (ws s) (r, c), cstyle = ''header_style''\<rparr>
       else if 2 \<le> r \<and> r \<le> N \<and> 1 \<le> c \<and> c \<le> C
         then Some \<lparr>cvalue = cell_value (ws s) (r, c), cstyle = ''body_style''\<rparr>
       else cells (ws s) (r, c))\<rparr>\<rparr>)"
proof -
  define s1 where "s1 = s\<lparr>ws := (ws s)\<lparr>cells := (\<lambda>p.
      if 1 \<le> fst p \<and> fst p < 1 + 1 \<and> 1 \<le> snd p \<and> snd p < 1 + C
      then Some \<lparr>cvalue = cell_value (ws s) p, cstyle = ''header_style''\<rparr>
      else cells (ws s) p)\<rparr>\<rparr>"
  have header: "apply_styles 1 1 1 C ''header_style'' s = (None, s1)"
    unfolding s1_def by (rule apply_styles_ok) (use assms(3) in simp_all)
  have val: "cell_value (ws s1) p = cell_value (ws s) p" for p
    by (simp add: s1_def cell_value_def)
  have cel: "cells (ws s1) p =
      (if fst p = 1 \<and> 1 \<le> snd p \<and> snd p \<le> C
       then Some \<lparr>cvalue = cell_value (ws s) p, cstyle = ''header_style''\<rparr>
       else cells (ws s) p)" for p
    by (auto simp: s1_def)
  have g: "s1\<lparr>ws := (ws s1)\<lparr>cells := h\<rparr>\<rparr> = s\<lparr>ws := (ws s)\<lparr>cells := h\<rparr>\<rparr>" for h
    by (simp add: s1_def)
  have s1_same: "s1 = s1\<lparr>ws := (ws s1)\<lparr>cells := cells (ws s1)\<rparr>\<rparr>"
    by simp
  have body: "apply_styles 2 1 (N - 1) C ''body_style'' s1 =
    (None, s\<lparr>ws := (ws s)\<lparr>cells := (\<lambda>(r, c).
       if r = 1 \<and> 1 \<le> c \<and> c \<le> C
         then Some \<lparr>cvalue = cell_value (ws s) (r, c), cstyle = ''header_style''\<rparr>
       else if 2 \<le> r \<and> r \<le> N \<and> 1 \<le> c \<and> c \<le> C
         then Some \<lparr>cvalue = cell_value (ws s) (r, c), cstyle = ''body_style''\<rparr>
       else cells (ws s) (r, c))\<rparr>\<rparr>)"
  proof (cases "2 \<le> N")
    case True
    then have reg: "''body_style'' \<in> set (map ns_name (named_styles s1))"
      using assms(4) by (simp add: s1_def)
    have f: "(\<lambda>p. if 2 \<le> fst p \<and> fst p < 2 + (N - 1) \<and> 1 \<le> snd p \<and> snd p < 1 + C
         then Some \<lparr>cvalue = cell_value (ws s1) p, cstyle = ''body_style''\<rparr>
         else cells (ws s1) p) =
       (\<lambda>(r, c).
       if r = 1 \<and> 1 \<le> c \<and> c \<le> C
         then Some \<lparr>cvalue = cell_value (ws s) (r, c), cstyle = ''header_style''\<rparr>
       else if 2 \<le> r \<and> r \<le> N \<and> 1 \<le> c \<and> c \<le> C
         then Some \<lparr>cvalue = cell_value (ws s) (r, c), cstyle = ''body_style''\<rparr>
       else cells (ws s) (r, c))"
      by (rule ext) (auto simp: val cel)
    have "apply_styles 2 1 (N - 1) C ''body_style'' s1 =
      (None, s1\<lparr>ws := (ws s1)\<lparr>cells := (\<lambda>p.
         if 2 \<le> fst p \<and> fst p < 2 + (N - 1) \<and> 1 \<le> snd p \<and> snd p < 1 + C
         then Some \<lparr>cvalue = cell_value (ws s1) p, cstyle = ''body_style''\<rparr>
         else cells (ws s1) p)\<rparr>\<rparr>)"
      by (rule apply_styles_ok) (use reg in simp_all)
    then show ?thesis
      by (simp only: f g)
  next
    case False
    then have n: "N - 1 \<le> 0" by simp
    have f: "cells (ws s1) =
       (\<lambda>(r, c).
       if r = 1 \<and> 1 \<le> c \<and> c \<le> C
         then Some \<lparr>cvalue = cell_value (ws s) (r, c), cstyle = ''header_style''\<rparr>
       else if 2 \<le> r \<and> r \<le> N \<and> 1 \<le> c \<and> c \<le> C
         then Some \<lparr>cvalue = cell_value (ws s) (r, c), cstyle = ''body_style''\<rparr>
       else cells (ws s) (r, c))"
      using False by (intro ext) (auto simp: cel)
    have a: "apply_styles 2 1 (N - 1) C ''body_style'' s1 = (None, s1)"
      by (rule apply_styles_no_rows) (use False in simp_all)
    have "s1 = s\<lparr>ws := (ws s)\<lparr>cells := cells (ws s1)\<rparr>\<rparr>"
      using g [of "cells (ws s1)"] by simp
    then have b: "s1 = s\<lparr>ws := (ws s)\<lparr>cells := (\<lambda>(r, c).
       if r = 1 \<and> 1 \<le> c \<and> c \<le> C
         then Some \<lparr>cvalue = cell_value (ws s) (r, c), cstyle = ''header_style''\<rparr>
       else if 2 \<le> r \<and> r \<le> N \<and> 1 \<le> c \<and> c \<le> C
         then Some \<lparr>cvalue = cell_value (ws s) (r, c), cstyle = ''body_style''\<rparr>
       else cells (ws s) (r, c))\<rparr>\<rparr>"
      unfolding f .
    show ?thesis
      unfolding b [symmetric] by (rule a)
  qed
  show ?thesis
    using assms(1,2) by (simp add: format_style_header_body_def header body)
qed

text \<open>
  Without the header style in the workbook the first cell write raises, and so does
  \<open>format_style_header_body\<close>.
\<close>

lemma header_body_unknown_style:
  assumes "1 \<le> N" and "1 \<le> C"
    and "''header_style'' \<notin> set (map ns_name (named_styles s))"
  shows "fst (format_style_header_body N C s) = Some ValueError"
proof -
  have r: "py_range 1 2 = [1]"
    by (simp add: py_range_def)
  have c: "py_range 1 (1 + C) = 1 # py_range 2 (1 + C)"
    using assms(2) by (simp add: py_range_def upto_rec1)
  have "fst (set_cell_style ''header_style'' 1 1 s) = Some ValueError"
    using assms(3) by (rule set_cell_style_unknown)
  then have "fst (apply_styles 1 1 1 C ''header_style'' s) = Some ValueError"
    by (cases "set_cell_style ''header_style'' 1 1 s") (simp add: apply_styles_def r c)
  then show ?thesis
    using assms(1,2)
    by (cases "apply_styles 1 1 1 C ''header_style'' s")
       (simp add: format_style_header_body_def)
qed

lemma people_registered:
  "map ns_name (named_styles people_state) =
     [''header_style'', ''body_style'', ''auto_adjust_style'', ''alternating_style'',
      ''freeze_panes_style'', ''filter_style'', ''date_style'', ''date_time_style'',
      ''int_style'', ''float_style'', ''currency_style'', ''percentage_style'',
      ''default_style'']"
  using registered_names(2) by (simp add: people_state_def)

text \<open>
  C2. For \<open>num_rows = N \<ge> 1\<close> and \<open>num_cols = C \<ge> 1\<close>, on a sheet whose workbook holds
  the styles \<open>header_style\<close> and \<open>body_style\<close> (the constructor of the formatter
  registers both), \<open>format_style_header_body\<close> returns, and the sheet it leaves differs
  from the one it got in exactly this: each cell of row 1, columns 1..C, has the style
  \<open>header_style\<close>, and each cell of rows 2..N, columns 1..C, has the style \<open>body_style\<close>,
  both with the value the cell had; every other cell is untouched.
\<close>

theorem header_body_exact:
  assumes "1 \<le> N" and "1 \<le> C"
    and "''header_style'' \<in> set (map ns_name (named_styles s))"
    and "''body_style'' \<in> set (map ns_name (named_styles s))"
  shows "format_style_header_body N C s =
    (None, s\<lparr>ws := (ws s)\<lparr>cells := (\<lambda>(r, c).
       if r = 1 \<and> 1 \<le> c \<and> c \<le> C
         then Some \<lparr>cvalue = cell_value (ws s) (r, c), cstyle = ''header_style''\<rparr>
       else if 2 \<le> r \<and> r \<le> N \<and> 1 \<le> c \<and> c \<le> C
         then Some \<lparr>cvalue = cell_value (ws s) (r, c), cstyle = ''body_style''\<rparr>
       else cells (ws s) (r, c))\<rparr>\<rparr>)"
  using assms by (intro format_style_header_body_ok) simp_all

theorem header_body_exact_witness:
  "fst (format_style_header_body 3 2 people_state) = None \<and>
   map (cells (ws (snd (format_style_header_body 3 2 people_state))))
     [(1, 1), (1, 2), (1, 3), (2, 1), (3, 2), (4, 1)] =
     [Some \<lparr>cvalue = PStr ''Name'', cstyle = ''header_style''\<rparr>,
      Some \<lparr>cvalue = PStr ''date'', cstyle = ''header_style''\<rparr>,
      None,
      Some \<lparr>cvalue = PStr ''Alice'', cstyle = ''body_style''\<rparr>,
      Some \<lparr>cvalue = PInt 20240229, cstyle = ''body_style''\<rparr>,
      None]"
proof -
  have h: "''header_style'' \<in> set (map ns_name (named_styles people_state))"
    and b: "''body_style'' \<in> set (map ns_name (named_styles people_state))"
    unfolding people_registered by simp_all
  have c: "cells (ws people_state) =
      [(1, 1) \<mapsto> \<lparr>cvalue = PStr ''Name'', cstyle = ''Normal''\<rparr>,
       (1, 2) \<mapsto> \<lparr>cvalue = PStr ''date'', cstyle = ''Normal''\<rparr>,
       (2, 1) \<mapsto> \<lparr>cvalue = PStr ''Alice'', cstyle = ''Normal''\<rparr>,
       (2, 2) \<mapsto> \<lparr>cvalue = PInt 20240131, cstyle = ''Normal''\<rparr>,
       (3, 1) \<mapsto> \<lparr>cvalue = PStr ''Bob'', cstyle = ''Normal''\<rparr>,
       (3, 2) \<mapsto> \<lparr>cvalue = PInt 20240229, cstyle = ''Normal''\<rparr>]"
    by (simp add: people_state_def empty_sheet_def)
  from header_body_exact [of 3 2 people_state, OF _ _ h b]
  show ?thesis
    by (simp add: c cell_value_def)
qed

section \<open>Properties of the type styling\<close>

lemma list_index_Some: "list_index xs x = Some i \<Longrightarrow> i < length xs \<and> xs ! i = x"
  by (induction xs arbitrary: i) (auto split: if_splits)

lemma list_index_mem: "x \<in> set xs \<Longrightarrow> \<exists>i. list_index xs x = Some i"
  by (induction xs) auto

lemma list_index_distinct: "distinct xs \<longleftrightarrow> (\<forall>i<length xs. list_index xs (xs ! i) = Some i)"
proof (induction xs)
  case Nil
  then show ?case by simp
next
  case (Cons y ys)
  show ?case
  proof
    assume d: "distinct (y # ys)"
    show "\<forall>i<length (y # ys). list_index (y # ys) ((y # ys) ! i) = Some i"
    proof (intro allI impI)
      fix i assume "i < length (y # ys)"
      then show "list_index (y # ys) ((y # ys) ! i) = Some i"
        using d Cons.IH by (cases i) auto
    qed
  next
    assume a: "\<forall>i<length (y # ys). list_index (y # ys) ((y # ys) ! i) = Some i"
    have "y \<notin> set ys"
    proof
      assume "y \<in> set ys"
      then obtain j where "j < length ys" "ys ! j = y" by (auto simp: in_set_conv_nth)
      with a [rule_format, of "Suc j"] show False by simp
    qed
    moreover have "\<forall>i<length ys. list_index ys (ys ! i) = Some i"
    proof (intro allI impI)
      fix i assume "i < length ys"
      with a [rule_format, of "Suc i"] show "list_index ys (ys ! i) = Some i"
        by (auto split: if_splits)
    qed
    ultimately show "distinct (y # ys)" using Cons.IH by simp
  qed
qed

lemma for_each_type_style:
  assumes "set xs \<subseteq> set names"
    and "\<forall>x\<in>set xs. cfg_style_name k x \<in> set (map ns_name (named_styles s))"
  shows "for_each (type_style_body k names n) xs s =
    (None, s\<lparr>ws := (ws s)\<lparr>cells := (\<lambda>p.
       if 2 \<le> fst p \<and> fst p \<le> n + 1 \<and> 1 \<le> snd p \<and>
          (\<exists>x\<in>set xs. list_index names x = Some (nat (snd p - 1)))
       then Some \<lparr>cvalue = cell_value (ws s) p,
                   cstyle = cfg_style_name k (names ! nat (snd p - 1))\<rparr>
       else cells (ws s) p)\<rparr>\<rparr>)"
  using assms
proof (induction xs arbitrary: s)
  case Nil
  then show ?case by simp
next
  case (Cons x xs)
  from Cons.prems(1) obtain i where i: "list_index names x = Some i"
    using list_index_mem [of x names] by auto
  then have xi: "names ! i = x" using list_index_Some by fastforce
  have sub: "set xs \<subseteq> set names" using Cons.prems(1) by simp
  have regx: "cfg_style_name k x \<in> set (map ns_name (named_styles s))"
    using Cons.prems(2) by simp
  define c1 where "c1 = (\<lambda>p.
      if 2 \<le> fst p \<and> fst p < 2 + n \<and> int i + 1 \<le> snd p \<and> snd p < int i + 1 + 1
      then Some \<lparr>cvalue = cell_value (ws s) p, cstyle = cfg_style_name k x\<rparr>
      else cells (ws s) p)"
  define s1 where "s1 = s\<lparr>ws := (ws s)\<lparr>cells := c1\<rparr>\<rparr>"
  have "apply_styles 2 (int i + 1) n 1 (cfg_style_name k x) s = (None, s1)"
    unfolding s1_def c1_def by (rule apply_styles_ok) (use regx in simp_all)
  then have body: "type_style_body k names n x s = (None, s1)"
    by (simp add: type_style_body_def i)
  have s1: "cells (ws s1) = c1"
    by (simp add: s1_def)
  have val: "cell_value (ws s1) p = cell_value (ws s) p" for p
    by (simp add: s1_def c1_def cell_value_def)
  have reg: "\<forall>y\<in>set xs. cfg_style_name k y \<in> set (map ns_name (named_styles s1))"
    using Cons.prems(2) by (simp add: s1_def)
  have pointwise: "(if 2 \<le> fst p \<and> fst p \<le> n + 1 \<and> 1 \<le> snd p \<and>
          (\<exists>y\<in>set xs. list_index names y = Some (nat (snd p - 1)))
       then Some \<lparr>cvalue = cell_value (ws s1) p,
                   cstyle = cfg_style_name k (names ! nat (snd p - 1))\<rparr>
       else cells (ws s1) p) =
      (if 2 \<le> fst p \<and> fst p \<le> n + 1 \<and> 1 \<le> snd p \<and>
          (\<exists>y\<in>set (x # xs). list_index names y = Some (nat (snd p - 1)))
       then Some \<lparr>cvalue = cell_value (ws s) p,
                   cstyle = cfg_style_name k (names ! nat (snd p - 1))\<rparr>
       else cells (ws s) p)" for p
  proof (cases "2 \<le> fst p \<and> fst p \<le> n + 1 \<and> snd p = int i + 1")
    case True
    then have n1: "nat (snd p - 1) = i" by simp
    have c: "c1 p = Some \<lparr>cvalue = cell_value (ws s) p, cstyle = cfg_style_name k x\<rparr>"
      using True by (simp add: c1_def)
    show ?thesis
      using True by (simp add: n1 xi c i s1 val)
  next
    case False
    have c: "c1 p = cells (ws s) p"
      using False by (auto simp: c1_def)
    have "\<not> (2 \<le> fst p \<and> fst p \<le> n + 1 \<and> 1 \<le> snd p \<and>
        list_index names x = Some (nat (snd p - 1)))"
    proof
      assume a: "2 \<le> fst p \<and> fst p \<le> n + 1 \<and> 1 \<le> snd p \<and>
        list_index names x = Some (nat (snd p - 1))"
      then have "nat (snd p - 1) = i" using i by simp
      with a have "snd p = int i + 1" by linarith
      with a False show False by simp
    qed
    then show ?thesis
      by (simp add: c s1 val) blast
  qed
  have f: "(\<lambda>p.
       if 2 \<le> fst p \<and> fst p \<le> n + 1 \<and> 1 \<le> snd p \<and>
          (\<exists>x\<in>set xs. list_index names x = Some (nat (snd p - 1)))
       then Some \<lparr>cvalue = cell_value (ws s1) p,
                   cstyle = cfg_style_name k (names ! nat (snd p - 1))\<rparr>
       else cells (ws s1) p) = (\<lambda>p.
       if 2 \<le> fst p \<and> fst p \<le> n + 1 \<and> 1 \<le> snd p \<and>
          (\<exists>y\<in>set (x # xs). list_index names y = Some (nat (snd p - 1)))
       then Some \<lparr>cvalue = cell_value (ws s) p,
                   cstyle = cfg_style_name k (names ! nat (snd p - 1))\<rparr>
       else cells (ws s) p)"
    by (rule ext) (rule pointwise)
  have g: "s1\<lparr>ws := (ws s1)\<lparr>cells := h\<rparr>\<rparr> = s\<lparr>ws := (ws s)\<lparr>cells := h\<rparr>\<rparr>" for h
    by (simp add: s1_def)
  have "for_each (type_style_body k names n) (x # xs) s =
        for_each (type_style_body k names n) xs s1"
    by (simp add: body)
  also have "\<dots> = (None, s1\<lparr>ws := (ws s1)\<lparr>cells := (\<lambda>p.
       if 2 \<le> fst p \<and> fst p \<le> n + 1 \<and> 1 \<le> snd p \<and>
          (\<exists>x\<in>set xs. list_index names x = Some (nat (snd p - 1)))
       then Some \<lparr>cvalue = cell_value (ws s1) p,
                   cstyle = cfg_style_name k (names ! nat (snd p - 1))\<rparr>
       else cells (ws s1) p)\<rparr>\<rparr>)"
    using sub reg by (rule Cons.IH)
  also have "\<dots> = (None, s\<lparr>ws := (ws s)\<lparr>cells := (\<lambda>p.
       if 2 \<le> fst p \<and> fst p \<le> n + 1 \<and> 1 \<le> snd p \<and>
          (\<exists>y\<in>set (x # xs). list_index names y = Some (nat (snd p - 1)))
       then Some \<lparr>cvalue = cell_value (ws s) p,
                   cstyle = cfg_style_name k (names ! nat (snd p - 1))\<rparr>
       else cells (ws s) p)\<rparr>\<rparr>)"
    by (simp only: f g)
  finally show ?case .
qed

lemma shipped_names_registered:
  assumes "named_styles s = named_styles registered_state"
  shows "cfg_style_name shared_constants col \<in> set (map ns_name (named_styles s))"
  using cfg_style_name_cases [of col] unfolding assms registered_names(2) by auto

text \<open>
  C10. For a non-empty list of names and a non-negative row count, on a sheet whose
  workbook holds the style resolved for each name, \<open>format_style_base_on_data_type\<close>
  returns, and it restyles exactly the data cells (rows 2..num_rows + 1) of those columns
  whose position is the first occurrence of the name it holds (\<^verbatim>\<open>list.index\<close>): each
  gets the style resolved for that name and keeps its value. The column of a later
  occurrence of a name is left untouched. Every position is a first occurrence, and so
  receives the style of its own name, exactly when the names are distinct.
\<close>

theorem type_styles_at_first_occurrence:
  assumes "column_name_lst \<noteq> []" and "0 \<le> num_rows"
    and "\<forall>col\<in>set column_name_lst.
           cfg_style_name k col \<in> set (map ns_name (named_styles s))"
  shows "format_style_base_on_data_type k column_name_lst num_rows s =
      (None, s\<lparr>ws := (ws s)\<lparr>cells := (\<lambda>(r, c).
         if 2 \<le> r \<and> r \<le> num_rows + 1 \<and> 1 \<le> c \<and> c \<le> int (length column_name_lst) \<and>
            list_index column_name_lst (column_name_lst ! nat (c - 1)) = Some (nat (c - 1))
         then Some \<lparr>cvalue = cell_value (ws s) (r, c),
                     cstyle = cfg_style_name k (column_name_lst ! nat (c - 1))\<rparr>
         else cells (ws s) (r, c))\<rparr>\<rparr>)
    \<and> (distinct column_name_lst \<longleftrightarrow>
         (\<forall>i<length column_name_lst. list_index column_name_lst (column_name_lst ! i) = Some i))"
proof
  have eq: "(1 \<le> c \<and> (\<exists>x\<in>set column_name_lst. list_index column_name_lst x = Some (nat (c - 1)))) \<longleftrightarrow>
        (1 \<le> c \<and> c \<le> int (length column_name_lst) \<and>
         list_index column_name_lst (column_name_lst ! nat (c - 1)) = Some (nat (c - 1)))" for c :: int
  proof
    assume a: "1 \<le> c \<and> (\<exists>x\<in>set column_name_lst. list_index column_name_lst x = Some (nat (c - 1)))"
    then obtain x where x: "list_index column_name_lst x = Some (nat (c - 1))" by blast
    from list_index_Some [OF x] have "nat (c - 1) < length column_name_lst"
      and "column_name_lst ! nat (c - 1) = x" by simp_all
    with a x show "1 \<le> c \<and> c \<le> int (length column_name_lst) \<and>
         list_index column_name_lst (column_name_lst ! nat (c - 1)) = Some (nat (c - 1))"
      by auto
  next
    assume a: "1 \<le> c \<and> c \<le> int (length column_name_lst) \<and>
         list_index column_name_lst (column_name_lst ! nat (c - 1)) = Some (nat (c - 1))"
    then have "nat (c - 1) < length column_name_lst" by auto
    then have "column_name_lst ! nat (c - 1) \<in> set column_name_lst" by simp
    with a show "1 \<le> c \<and> (\<exists>x\<in>set column_name_lst. list_index column_name_lst x = Some (nat (c - 1)))"
      by blast
  qed
  have "format_style_base_on_data_type k column_name_lst num_rows s =
        for_each (type_style_body k column_name_lst num_rows) column_name_lst s"
    using assms(1,2) by (simp add: format_style_base_on_data_type_def)
  also have "\<dots> = (None, s\<lparr>ws := (ws s)\<lparr>cells := (\<lambda>p.
       if 2 \<le> fst p \<and> fst p \<le> num_rows + 1 \<and> 1 \<le> snd p \<and>
          (\<exists>x\<in>set column_name_lst. list_index column_name_lst x = Some (nat (snd p - 1)))
       then Some \<lparr>cvalue = cell_value (ws s) p,
                   cstyle = cfg_style_name k (column_name_lst ! nat (snd p - 1))\<rparr>
       else cells (ws s) p)\<rparr>\<rparr>)"
    using assms(3) by (intro for_each_type_style) simp_all
  also have "(\<lambda>p.
       if 2 \<le> fst p \<and> fst p \<le> num_rows + 1 \<and> 1 \<le> snd p \<and>
          (\<exists>x\<in>set column_name_lst. list_index column_name_lst x = Some (nat (snd p - 1)))
       then Some \<lparr>cvalue = cell_value (ws s) p,
                   cstyle = cfg_style_name k (column_name_lst ! nat (snd p - 1))\<rparr>
       else cells (ws s) p) = (\<lambda>(r, c).
         if 2 \<le> r \<and> r \<le> num_rows + 1 \<and> 1 \<le> c \<and> c \<le> int (length column_name_lst) \<and>
            list_index column_name_lst (column_name_lst ! nat (c - 1)) = Some (nat (c - 1))
         then Some \<lparr>cvalue = cell_value (ws s) (r, c),
                     cstyle = cfg_style_name k (column_name_lst ! nat (c - 1))\<rparr>
         else cells (ws s) (r, c))"
    by (rule ext) (simp only: eq split_beta prod.collapse)
  finally show "format_style_base_on_data_type k column_name_lst num_rows s =
      (None, s\<lparr>ws := (ws s)\<lparr>cells := (\<lambda>(r, c).
         if 2 \<le> r \<and> r \<le> num_rows + 1 \<and> 1 \<le> c \<and> c \<le> int (length column_name_lst) \<and>
            list_index column_name_lst (column_name_lst ! nat (c - 1)) = Some (nat (c - 1))
         then Some \<lparr>cvalue = cell_value (ws s) (r, c),
                     cstyle = cfg_style_name k (column_name_lst ! nat (c - 1))\<rparr>
         else cells (ws s) (r, c))\<rparr>\<rparr>)" .
next
  show "distinct column_name_lst \<longleftrightarrow>
         (\<forall>i<length column_name_lst. list_index column_name_lst (column_name_lst ! i) = Some i)"
    by (rule list_index_distinct)
qed

theorem type_styles_at_first_occurrence_witness:
  "fst (format_style_base_on_data_type shared_constants [''date'', ''Name'', ''date''] 1
      duplicate_state) = None \<and>
   map (cells (ws (snd (format_style_base_on_data_type shared_constants
           [''date'', ''Name'', ''date''] 1 duplicate_state))))
     [(1, 1), (2, 1), (2, 2), (2, 3), (3, 1)] =
     [Some \<lparr>cvalue = PStr ''date'', cstyle = ''Normal''\<rparr>,
      Some \<lparr>cvalue = PInt 20240131, cstyle = ''date_time_style''\<rparr>,
      Some \<lparr>cvalue = PStr ''Alice'', cstyle = ''default_style''\<rparr>,
      Some \<lparr>cvalue = PInt 20240229, cstyle = ''Normal''\<rparr>,
      None] \<and>
   \<not> distinct [''date'', ''Name'', ''date'']"
proof -
  have r: "\<forall>col\<in>set [''date'', ''Name'', ''date''].
      cfg_style_name shared_constants col \<in> set (map ns_name (named_styles duplicate_state))"
    by (intro ballI shipped_names_registered) (simp add: duplicate_state_def)
  have c: "cells (ws duplicate_state) =
      [(1, 1) \<mapsto> \<lparr>cvalue = PStr ''date'', cstyle = ''Normal''\<rparr>,
       (1, 2) \<mapsto> \<lparr>cvalue = PStr ''Name'', cstyle = ''Normal''\<rparr>,
       (1, 3) \<mapsto> \<lparr>cvalue = PStr ''date'', cstyle = ''Normal''\<rparr>,
       (2, 1) \<mapsto> \<lparr>cvalue = PInt 20240131, cstyle = ''Normal''\<rparr>,
       (2, 2) \<mapsto> \<lparr>cvalue = PStr ''Alice'', cstyle = ''Normal''\<rparr>,
       (2, 3) \<mapsto> \<lparr>cvalue = PInt 20240229, cstyle = ''Normal''\<rparr>]"
    by (simp add: duplicate_state_def empty_sheet_def)
  from type_styles_at_first_occurrence [of "[''date'', ''Name'', ''date'']" 1 shared_constants
      duplicate_state, OF _ _ r]
  show ?thesis
    by (simp add: c cell_value_def cfg_style_name_def cfg_data_type_def
      dict_get_def shared_constants_def declare_data_type_config_def
      map_data_type_style_name_config_def)
qed

section \<open>Invalid dimensions\<close>

text \<open>
  C5, as the code has it. \<open>format_style_header_body\<close> raises whenever \<open>num_rows < 1\<close> or
  \<open>num_cols < 1\<close>, and \<open>format_style_base_on_data_type\<close> raises whenever the row count is
  negative and the list of names is not empty; the exception is Python's built-in
  \<^verbatim>\<open>ValueError\<close> in both, and the state is left as it was.
\<close>

theorem invalid_inputs_raise_ValueError:
  "(num_rows < 1 \<or> num_cols < 1 \<longrightarrow>
      format_style_header_body num_rows num_cols s = (Some ValueError, s)) \<and>
   (column_name_lst \<noteq> [] \<and> data_rows < 0 \<longrightarrow>
      format_style_base_on_data_type k column_name_lst data_rows s = (Some ValueError, s))"
  by (simp add: format_style_header_body_def format_style_base_on_data_type_def)

theorem invalid_inputs_raise_ValueError_witness:
  "format_style_header_body 0 3 new_state = (Some ValueError, new_state) \<and>
   format_style_header_body 2 0 new_state = (Some ValueError, new_state) \<and>
   format_style_base_on_data_type shared_constants [''date''] (- 1) new_state =
     (Some ValueError, new_state)"
  using invalid_inputs_raise_ValueError [of 0 3 new_state "[''date'']" "- 1" shared_constants]
    invalid_inputs_raise_ValueError [of 2 0 new_state "[''date'']" "- 1" shared_constants]
  by simp

text \<open>
  C5 as stated asks for a \<^verbatim>\<open>ValidationError\<close>, the class of
  \<^verbatim>\<open>shared/exceptions.py\<close>. With \<open>num_rows = 0\<close>, and with a row count of \<open>-1\<close> for
  one column, the exception raised is a \<^verbatim>\<open>ValueError\<close>, which is no \<^verbatim>\<open>ValidationError\<close>.
\<close>

theorem header_body_zero_rows_raises_ValueError:
  "fst (format_style_header_body 0 1 new_state) = Some ValueError \<and>
   map_option is_ValidationError (fst (format_style_header_body 0 1 new_state)) = Some False \<and>
   fst (format_style_base_on_data_type shared_constants [''date''] (- 1) new_state) = Some ValueError \<and>
   map_option is_ValidationError
     (fst (format_style_base_on_data_type shared_constants [''date''] (- 1) new_state)) = Some False"
  by (simp add: format_style_header_body_def format_style_base_on_data_type_def)

section \<open>The pipeline and its cosmetic steps\<close>

lemma try_except_logs:
  "fst (try_except body (\<lambda>e s. (None, logger_error m s)) s) = None"
  "fst (body s) \<noteq> None \<Longrightarrow>
     snd (try_except body (\<lambda>e s. (None, logger_error m s)) s) = logger_error m (snd (body s))"
  "fst (body s) = None \<Longrightarrow>
     snd (try_except body (\<lambda>e s. (None, logger_error m s)) s) = snd (body s)"
  by (auto simp: try_except_def split: prod.splits option.splits)

lemma seq_returns: "fst (m1 s) = None \<Longrightarrow> seq m1 m2 s = m2 (snd (m1 s))"
  by (auto simp: seq_def split: prod.splits option.splits)

lemma seq_assoc: "seq (seq a b) c = seq a (seq b c)"
  by (auto simp: seq_def fun_eq_iff split: prod.splits option.splits)

lemma cells_set_filter_mode: "cells (ws (snd (set_filter_mode lib k s))) = cells (ws s)"
  by (simp add: set_filter_mode_def set_filter_mode_try_def try_except_def logger_error_def Let_def
      split: sum.splits option.splits)

lemma cells_set_freeze_panes_style:
  "cells (ws (snd (set_freeze_panes_style lib k s))) = cells (ws s)"
  by (simp add: set_freeze_panes_style_def set_freeze_panes_style_try_def try_except_def
      logger_error_def Let_def split: sum.splits option.splits)

lemma cells_adjust_col: "cells (ws (snd (adjust_col w col s))) = cells (ws s)"
  by (simp add: adjust_col_def split: sum.splits list.splits)

lemma cells_for_each_adjust_col:
  "cells (ws (snd (for_each (adjust_col w) cols s))) = cells (ws s)"
proof (induction cols arbitrary: s)
  case Nil
  then show ?case by simp
next
  case (Cons col cols)
  show ?case
  proof (cases "adjust_col w col s")
    case (Pair r s')
    then have "cells (ws s') = cells (ws s)"
      using cells_adjust_col [of w col s] by simp
    with Pair Cons.IH [of s'] show ?thesis
      by (cases r) simp_all
  qed
qed

lemma cells_auto_adjust_cols: "cells (ws (snd (auto_adjust_cols lib k s))) = cells (ws s)"
proof -
  have "cells (ws (snd (auto_adjust_cols_try lib k s))) = cells (ws s)"
    by (simp add: auto_adjust_cols_try_def Let_def cells_for_each_adjust_col split: sum.splits)
  then show ?thesis
    by (cases "auto_adjust_cols_try lib k s")
       (auto simp: auto_adjust_cols_def try_except_def logger_error_def split: option.splits)
qed

lemma header_body_returns:
  assumes "1 \<le> N" and "1 \<le> C"
    and "''header_style'' \<in> set (map ns_name (named_styles s))"
    and "2 \<le> N \<Longrightarrow> ''body_style'' \<in> set (map ns_name (named_styles s))"
  shows "fst (format_style_header_body N C s) = None"
    and "log (snd (format_style_header_body N C s)) = log s"
    and "named_styles (snd (format_style_header_body N C s)) = named_styles s"
  using format_style_header_body_ok [OF assms] by simp_all

lemma type_styles_returns:
  assumes "0 \<le> n" and "names \<noteq> []"
    and "\<forall>col\<in>set names. cfg_style_name k col \<in> set (map ns_name (named_styles s))"
  shows "fst (format_style_base_on_data_type k names n s) = None"
    and "log (snd (format_style_base_on_data_type k names n s)) = log s"
  using assms for_each_type_style [of names names k s n]
  by (simp_all add: format_style_base_on_data_type_def)

lemma for_each_type_style_zero_rows:
  assumes "set xs \<subseteq> set names"
  shows "for_each (type_style_body k names 0) xs s = (None, s)"
  using assms
proof (induction xs)
  case Nil
  then show ?case by simp
next
  case (Cons x xs)
  then obtain i where i: "list_index names x = Some i"
    using list_index_mem [of x names] by auto
  have "apply_styles 2 (int i + 1) 0 1 (cfg_style_name k x) s = (None, s)"
    by (rule apply_styles_no_rows) simp_all
  then have "type_style_body k names 0 x s = (None, s)"
    by (simp add: type_style_body_def i)
  with Cons show ?case by simp
qed

lemma type_styles_zero_rows:
  assumes "names \<noteq> []"
  shows "format_style_base_on_data_type k names 0 s = (None, s)"
  using assms by (simp add: format_style_base_on_data_type_def for_each_type_style_zero_rows)

lemma bulk_no_warnings: "snd (build_bulk_named_style shared_constants) = []"
  by (simp add: build_bulk_named_style_def build_named_style_def dict_keys_def dict_has_def
      shared_constants_def visual_style_name_config_def data_type_style_name_config_def)

lemma registered_log: "log registered_state = []"
proof -
  obtain lst w where b: "build_bulk_named_style shared_constants = (lst, w)"
    by (cases "build_bulk_named_style shared_constants")
  have w: "w = []" using bulk_no_warnings by (simp add: b)
  have n: "map (map_option ns_name) lst =
     [Some ''header_style'', Some ''body_style'', Some ''auto_adjust_style'',
      Some ''alternating_style'', Some ''freeze_panes_style'', Some ''filter_style'',
      Some ''date_style'', Some ''date_time_style'', Some ''int_style'', Some ''float_style'',
      Some ''currency_style'', Some ''percentage_style'', Some ''default_style'']"
    using bulk_names by (simp add: b)
  have nn: "None \<notin> set lst" using bulk_no_None by (simp add: b)
  have "register_styles lst [] = (None, [] @ map the lst)"
    by (rule register_styles_fresh) (simp_all add: n nn)
  then have "SetSheetFormatter shared_constants new_state =
      (None, new_state\<lparr>log := w, named_styles := map the lst\<rparr>)"
    by (simp add: SetSheetFormatter_def init_global_styles_def b new_state_def)
  then show ?thesis
    by (simp add: registered_state_def w)
qed

text \<open>
  C3. Whatever the library does and whatever the configuration holds, none of
  \<open>set_filter_mode\<close>, \<open>auto_adjust_cols\<close> and \<open>set_freeze_panes_style\<close> raises; when the
  \<^verbatim>\<open>try\<close> block of one fails, the step ends after logging an error on the state the
  block left. So once the two structural steps have returned, \<open>run_pipeline\<close> runs all
  three cosmetic steps in order and returns.
\<close>

theorem cosmetic_steps_never_raise:
  "fst (set_filter_mode lib k s) = None \<and>
   fst (auto_adjust_cols lib k s) = None \<and>
   fst (set_freeze_panes_style lib k s) = None \<and>
   (fst (set_filter_mode_try lib k s) \<noteq> None \<longrightarrow>
      snd (set_filter_mode lib k s) =
        logger_error ''Error setting filter mode'' (snd (set_filter_mode_try lib k s))) \<and>
   (fst (auto_adjust_cols_try lib k s) \<noteq> None \<longrightarrow>
      snd (auto_adjust_cols lib k s) =
        logger_error ''Error adjusting column widths'' (snd (auto_adjust_cols_try lib k s))) \<and>
   (fst (set_freeze_panes_style_try lib k s) \<noteq> None \<longrightarrow>
      snd (set_freeze_panes_style lib k s) =
        logger_error ''Error setting freeze panes'' (snd (set_freeze_panes_style_try lib k s))) \<and>
   (fst (seq (format_style_header_body (int (length (trows df)) + 1) (int (length (tcolumns df))))
             (format_style_base_on_data_type k (tcolumns df) (int (length (trows df)))) s) = None \<longrightarrow>
      run_pipeline lib k df s =
        (None, snd (set_freeze_panes_style lib k (snd (auto_adjust_cols lib k
           (snd (set_filter_mode lib k
             (snd (seq (format_style_header_body (int (length (trows df)) + 1)
                          (int (length (tcolumns df))))
                       (format_style_base_on_data_type k (tcolumns df)
                          (int (length (trows df)))) s)))))))))"
proof (intro conjI impI)
  show "fst (set_filter_mode lib k s) = None"
    by (simp add: set_filter_mode_def try_except_logs)
  show "fst (auto_adjust_cols lib k s) = None"
    by (simp add: auto_adjust_cols_def try_except_logs)
  show "fst (set_freeze_panes_style lib k s) = None"
    by (simp add: set_freeze_panes_style_def try_except_logs)
  show "snd (set_filter_mode lib k s) =
        logger_error ''Error setting filter mode'' (snd (set_filter_mode_try lib k s))"
    if "fst (set_filter_mode_try lib k s) \<noteq> None"
    using that by (simp add: set_filter_mode_def try_except_logs)
  show "snd (auto_adjust_cols lib k s) =
        logger_error ''Error adjusting column widths'' (snd (auto_adjust_cols_try lib k s))"
    if "fst (auto_adjust_cols_try lib k s) \<noteq> None"
    using that by (simp add: auto_adjust_cols_def try_except_logs)
  show "snd (set_freeze_panes_style lib k s) =
        logger_error ''Error setting freeze panes'' (snd (set_freeze_panes_style_try lib k s))"
    if "fst (set_freeze_panes_style_try lib k s) \<noteq> None"
    using that by (simp add: set_freeze_panes_style_def try_except_logs)
next
  let ?hb = "format_style_header_body (int (length (trows df)) + 1) (int (length (tcolumns df)))"
  let ?ty = "format_style_base_on_data_type k (tcolumns df) (int (length (trows df)))"
  let ?F = "set_filter_mode lib k" and ?A = "auto_adjust_cols lib k"
  let ?Z = "set_freeze_panes_style lib k"
  assume ok: "fst (seq ?hb ?ty s) = None"
  have F: "fst (?F t) = None" for t by (simp add: set_filter_mode_def try_except_logs)
  have A: "fst (?A t) = None" for t by (simp add: auto_adjust_cols_def try_except_logs)
  have Z: "fst (?Z t) = None" for t by (simp add: set_freeze_panes_style_def try_except_logs)
  have "seq ?hb (seq ?ty (seq ?F (seq ?A ?Z))) s = seq (seq ?hb ?ty) (seq ?F (seq ?A ?Z)) s"
    by (simp add: seq_assoc)
  also have "\<dots> = seq ?F (seq ?A ?Z) (snd (seq ?hb ?ty s))"
    using ok by (rule seq_returns)
  also have "\<dots> = seq ?A ?Z (snd (?F (snd (seq ?hb ?ty s))))"
    by (rule seq_returns) (rule F)
  also have "\<dots> = ?Z (snd (?A (snd (?F (snd (seq ?hb ?ty s))))))"
    by (rule seq_returns) (rule A)
  finally have body: "seq ?hb (seq ?ty (seq ?F (seq ?A ?Z))) s =
      ?Z (snd (?A (snd (?F (snd (seq ?hb ?ty s))))))" .
  have "fst (?Z (snd (?A (snd (?F (snd (seq ?hb ?ty s))))))) = None" by (rule Z)
  then show "run_pipeline lib k df s =
      (None, snd (?Z (snd (?A (snd (?F (snd (seq ?hb ?ty s))))))))"
    unfolding run_pipeline_def Let_def try_except_def body
    by (cases "?Z (snd (?A (snd (?F (snd (seq ?hb ?ty s))))))") simp
qed

theorem cosmetic_steps_never_raise_witness:
  "run_pipeline failing_library shared_constants
      \<lparr>tcolumns = [''Name'', ''date''],
       trows = [[PStr ''Alice'', PInt 20240131], [PStr ''Bob'', PInt 20240229]]\<rparr> people_state =
     (None, snd (set_freeze_panes_style failing_library shared_constants
       (snd (auto_adjust_cols failing_library shared_constants
         (snd (set_filter_mode failing_library shared_constants
           (snd (seq (format_style_header_body 3 2)
              (format_style_base_on_data_type shared_constants [''Name'', ''date''] 2)
              people_state)))))))) \<and>
   log (snd (run_pipeline failing_library shared_constants
      \<lparr>tcolumns = [''Name'', ''date''],
       trows = [[PStr ''Alice'', PInt 20240131], [PStr ''Bob'', PInt 20240229]]\<rparr> people_state)) =
     [(ERROR, ''Error setting filter mode''), (ERROR, ''Error adjusting column widths''),
      (ERROR, ''Error setting freeze panes'')]"
proof -
  let ?df = "\<lparr>tcolumns = [''Name'', ''date''],
       trows = [[PStr ''Alice'', PInt 20240131], [PStr ''Bob'', PInt 20240229]]\<rparr>"
  let ?st = "seq (format_style_header_body 3 2)
              (format_style_base_on_data_type shared_constants [''Name'', ''date''] 2) people_state"
  have h: "''header_style'' \<in> set (map ns_name (named_styles people_state))"
    and b: "''body_style'' \<in> set (map ns_name (named_styles people_state))"
    unfolding people_registered by simp_all
  have hb: "fst (format_style_header_body 3 2 people_state) = None"
    and hl: "log (snd (format_style_header_body 3 2 people_state)) = log people_state"
    and hn: "named_styles (snd (format_style_header_body 3 2 people_state)) =
        named_styles people_state"
    using h b by (simp_all add: header_body_returns)
  have r: "\<forall>col\<in>set [''Name'', ''date''].
      cfg_style_name shared_constants col \<in>
        set (map ns_name (named_styles (snd (format_style_header_body 3 2 people_state))))"
  proof (intro ballI shipped_names_registered)
    show "named_styles (snd (format_style_header_body 3 2 people_state)) =
        named_styles registered_state"
      using hn by (simp add: people_state_def)
  qed
  have sq: "?st = format_style_base_on_data_type shared_constants [''Name'', ''date''] 2
      (snd (format_style_header_body 3 2 people_state))"
    using hb by (rule seq_returns)
  have st: "fst ?st = None"
    unfolding sq using r by (intro type_styles_returns) simp_all
  have "log (snd ?st) = log (snd (format_style_header_body 3 2 people_state))"
    unfolding sq using r by (intro type_styles_returns) simp_all
  moreover have "log people_state = []"
    by (simp add: people_state_def registered_log)
  ultimately have lg: "log (snd ?st) = []"
    using hl by simp
  have vis: "dict_get (VISUAL_STYLE_NAME_CONFIG shared_constants) ''filter_style'' [] = [(''mode_on'', PBool True)]"
     "dict_get (VISUAL_STYLE_NAME_CONFIG shared_constants) ''freeze_panes_style'' [] =
        [(''mode_on'', PBool True), (''freeze_cell'', PStr ''B2'')]"
     "dict_get (VISUAL_STYLE_NAME_CONFIG shared_constants) ''auto_adjust_style'' [] =
        [(''auto_adjust_width'', PBool True), (''max_column_width'', PInt 60),
         (''auto_adjust_height'', PBool False), (''max_column_height'', PInt 15)]"
    by (simp_all add: dict_get_def shared_constants_def visual_style_name_config_def)
  have F: "log (snd (set_filter_mode failing_library shared_constants t)) =
      log t @ [(ERROR, ''Error setting filter mode'')]" for t
    unfolding set_filter_mode_def set_filter_mode_try_def vis
    by (simp add: try_except_def dict_get_def failing_library_def logger_error_def)
  have A: "log (snd (auto_adjust_cols failing_library shared_constants t)) =
      log t @ [(ERROR, ''Error adjusting column widths'')]" for t
    unfolding auto_adjust_cols_def auto_adjust_cols_try_def vis
    by (simp add: try_except_def dict_get_def failing_library_def logger_error_def)
  have Z: "log (snd (set_freeze_panes_style failing_library shared_constants t)) =
      log t @ [(ERROR, ''Error setting freeze panes'')]" for t
    unfolding set_freeze_panes_style_def set_freeze_panes_style_try_def vis
    by (simp add: try_except_def dict_get_def failing_library_def logger_error_def)
  from cosmetic_steps_never_raise [of failing_library shared_constants people_state ?df] st
  have run: "run_pipeline failing_library shared_constants ?df people_state =
     (None, snd (set_freeze_panes_style failing_library shared_constants
       (snd (auto_adjust_cols failing_library shared_constants
         (snd (set_filter_mode failing_library shared_constants (snd ?st)))))))"
    by simp
  show ?thesis
    unfolding run by (simp add: F A Z lg)
qed

text \<open>
  C9. For a table with no row and at least one column, on a sheet whose workbook holds
  the style \<open>header_style\<close>: the header and body styling, called with
  \<open>len(df) + 1 = 1\<close> rows, returns and gives exactly the cells of row 1, columns 1..C, the
  style \<open>header_style\<close>, each keeping its value; the type styling, called with 0 rows,
  returns and changes nothing; \<open>run_pipeline\<close> returns, and the cells of the sheet it
  leaves are those the header styling left.
\<close>

theorem empty_table_structural_steps:
  assumes "tcolumns df \<noteq> []" and "trows df = []"
    and "''header_style'' \<in> set (map ns_name (named_styles s))"
  shows "format_style_header_body (int (length (trows df)) + 1) (int (length (tcolumns df))) s =
      (None, s\<lparr>ws := (ws s)\<lparr>cells := (\<lambda>(r, c).
         if r = 1 \<and> 1 \<le> c \<and> c \<le> int (length (tcolumns df))
         then Some \<lparr>cvalue = cell_value (ws s) (r, c), cstyle = ''header_style''\<rparr>
         else cells (ws s) (r, c))\<rparr>\<rparr>)
    \<and> format_style_base_on_data_type k (tcolumns df) (int (length (trows df))) s' = (None, s')
    \<and> fst (run_pipeline lib k df s) = None
    \<and> cells (ws (snd (run_pipeline lib k df s))) = (\<lambda>(r, c).
         if r = 1 \<and> 1 \<le> c \<and> c \<le> int (length (tcolumns df))
         then Some \<lparr>cvalue = cell_value (ws s) (r, c), cstyle = ''header_style''\<rparr>
         else cells (ws s) (r, c))"
proof -
  let ?C = "int (length (tcolumns df))"
  let ?h = "\<lambda>(r, c). if r = 1 \<and> 1 \<le> c \<and> c \<le> ?C
         then Some \<lparr>cvalue = cell_value (ws s) (r, c), cstyle = ''header_style''\<rparr>
         else cells (ws s) (r, c)"
  let ?s1 = "s\<lparr>ws := (ws s)\<lparr>cells := ?h\<rparr>\<rparr>"
  have C: "1 \<le> ?C" using assms(1) by (cases "tcolumns df") simp_all
  have "format_style_header_body 1 ?C s =
    (None, s\<lparr>ws := (ws s)\<lparr>cells := (\<lambda>(r, c).
       if r = 1 \<and> 1 \<le> c \<and> c \<le> ?C
         then Some \<lparr>cvalue = cell_value (ws s) (r, c), cstyle = ''header_style''\<rparr>
       else if 2 \<le> r \<and> r \<le> 1 \<and> 1 \<le> c \<and> c \<le> ?C
         then Some \<lparr>cvalue = cell_value (ws s) (r, c), cstyle = ''body_style''\<rparr>
       else cells (ws s) (r, c))\<rparr>\<rparr>)"
    using C assms(3) by (intro format_style_header_body_ok) simp_all
  moreover have "(\<lambda>(r, c).
       if r = 1 \<and> 1 \<le> c \<and> c \<le> ?C
         then Some \<lparr>cvalue = cell_value (ws s) (r, c), cstyle = ''header_style''\<rparr>
       else if 2 \<le> r \<and> r \<le> (1::int) \<and> 1 \<le> c \<and> c \<le> ?C
         then Some \<lparr>cvalue = cell_value (ws s) (r, c), cstyle = ''body_style''\<rparr>
       else cells (ws s) (r, c)) = ?h"
    by (rule ext) auto
  ultimately have hb: "format_style_header_body (int (length (trows df)) + 1) ?C s = (None, ?s1)"
    using assms(2) by simp
  have ty: "format_style_base_on_data_type k (tcolumns df) (int (length (trows df))) t = (None, t)"
    for t
    using type_styles_zero_rows [of "tcolumns df" k t] assms(1,2)
    by simp
  have F: "fst (set_filter_mode lib k t) = None" for t
    by (simp add: set_filter_mode_def try_except_logs)
  have A: "fst (auto_adjust_cols lib k t) = None" for t
    by (simp add: auto_adjust_cols_def try_except_logs)
  have Z: "fst (set_freeze_panes_style lib k t) = None" for t
    by (simp add: set_freeze_panes_style_def try_except_logs)
  let ?end = "set_freeze_panes_style lib k (snd (auto_adjust_cols lib k
      (snd (set_filter_mode lib k ?s1))))"
  have body: "seq (format_style_header_body (int (length (trows df)) + 1) ?C)
       (seq (format_style_base_on_data_type k (tcolumns df) (int (length (trows df))))
       (seq (set_filter_mode lib k) (seq (auto_adjust_cols lib k) (set_freeze_panes_style lib k)))) s
      = ?end"
    by (simp add: seq_returns hb ty F A)
  have run: "run_pipeline lib k df s = (None, snd ?end)"
    unfolding run_pipeline_def Let_def try_except_def body
    using Z [of "snd (auto_adjust_cols lib k (snd (set_filter_mode lib k ?s1)))"]
    by (cases ?end) simp
  have "cells (ws (snd ?end)) = cells (ws ?s1)"
    by (simp only: cells_set_freeze_panes_style cells_auto_adjust_cols cells_set_filter_mode)
  then have cells: "cells (ws (snd (run_pipeline lib k df s))) = ?h"
    by (simp add: run)
  show ?thesis
    using hb ty [of s'] run cells by simp
qed

theorem empty_table_structural_steps_witness:
  "fst (run_pipeline header_row_library shared_constants
       \<lparr>tcolumns = [''Name'', ''date''], trows = []\<rparr> header_only_state) = None \<and>
   map (cells (ws (snd (run_pipeline header_row_library shared_constants
       \<lparr>tcolumns = [''Name'', ''date''], trows = []\<rparr> header_only_state))))
     [(1, 1), (1, 2), (1, 3), (2, 1), (2, 2)] =
     [Some \<lparr>cvalue = PStr ''Name'', cstyle = ''header_style''\<rparr>,
      Some \<lparr>cvalue = PStr ''date'', cstyle = ''header_style''\<rparr>,
      None, None, None]"
proof -
  have "map ns_name (named_styles header_only_state) =
      map ns_name (named_styles registered_state)"
    by (simp add: header_only_state_def)
  then have h: "''header_style'' \<in> set (map ns_name (named_styles header_only_state))"
    unfolding registered_names(2) by simp
  have c: "cells (ws header_only_state) =
      [(1, 1) \<mapsto> \<lparr>cvalue = PStr ''Name'', cstyle = ''Normal''\<rparr>,
       (1, 2) \<mapsto> \<lparr>cvalue = PStr ''date'', cstyle = ''Normal''\<rparr>]"
    by (simp add: header_only_state_def empty_sheet_def)
  from empty_table_structural_steps [of "\<lparr>tcolumns = [''Name'', ''date''], trows = []\<rparr>"
      header_only_state shared_constants header_only_state header_row_library, OF _ _ h]
  show ?thesis
    by (simp add: c cell_value_def)
qed

section \<open>Column widths\<close>

lemma auto_adjust_config_shipped:
  "dict_get (VISUAL_STYLE_NAME_CONFIG shared_constants) ''auto_adjust_style'' [] =
        [(''auto_adjust_width'', PBool True), (''max_column_width'', PInt 60),
         (''auto_adjust_height'', PBool False), (''max_column_height'', PInt 15)]"
  by (simp add: dict_get_def shared_constants_def visual_style_name_config_def)

text \<open>
  What the loop body stores for a column of at least one cell and an integer maximum
  width: the longest \<^verbatim>\<open>str(cell.value or "")\<close> of the column plus 8, capped.
\<close>

lemma fold_max_Max: "fold max ls (l :: int) = Max (set (l # ls))"
  by (rule Max.set_eq_fold [symmetric])

lemma adjust_col_width:
  assumes "col \<noteq> []"
  shows "adjust_col (PInt W) col s =
    (None, s\<lparr>ws := (ws s)\<lparr>column_width := (column_width (ws s))(snd (hd col) \<mapsto>
       min (Max (set (map (\<lambda>q. int (length (py_str (or_empty (cell_value (ws s) q))))) col)) + 8)
         W)\<rparr>\<rparr>)"
proof -
  obtain p ps where c: "col = p # ps" using assms by (cases col) auto
  have "max_len (ws s) col =
      Max (set (map (\<lambda>q. int (length (py_str (or_empty (cell_value (ws s) q))))) col))"
    unfolding max_len_def c list.map list.case by (rule fold_max_Max)
  then show ?thesis
    by (simp add: adjust_col_def c)
qed

text \<open>
  C6 at an empty column, with the shipped maximum width of 60. For a column whose two
  cells hold \<^verbatim>\<open>None\<close> and the empty string the width stored is 8, not \<open>min (5 + 8) 60\<close>:
  the default 5 is not used when the column has cells. For a column of no cells the
  default is used, but reading \<^verbatim>\<open>col[0]\<close> then raises, the step logs the error, and no
  width is stored at all.
\<close>

theorem blank_column_width_is_8:
  "fst (auto_adjust_cols blank_column_library shared_constants blank_column_state) = None \<and>
   column_width (ws (snd (auto_adjust_cols blank_column_library shared_constants
      blank_column_state))) 1 = Some 8 \<and>
   log (snd (auto_adjust_cols blank_column_library shared_constants blank_column_state)) = [] \<and>
   column_width (ws (snd (auto_adjust_cols no_cell_column_library shared_constants
      blank_column_state))) = (\<lambda>c. None) \<and>
   log (snd (auto_adjust_cols no_cell_column_library shared_constants blank_column_state)) =
     [(ERROR, ''Error adjusting column widths'')]"
  unfolding auto_adjust_cols_def auto_adjust_cols_try_def auto_adjust_config_shipped
  by (simp add: try_except_def dict_get_def blank_column_library_def no_cell_column_library_def
      blank_column_state_def new_state_def empty_sheet_def adjust_col_def max_len_def
      cell_value_def or_empty_def logger_error_def)

section \<open>The reader\<close>

lemma read_on_table:
  assumes "fs (file_path self) = Holds df" and "required_columns self \<noteq> []"
  shows "read fs self =
    (if set (required_columns self) \<subseteq> set [s. Txt s \<leftarrow> tcolumns df] then Inr df
     else
       (case py_sorted (tcolumns df) of
          Inl e \<Rightarrow> Inl e
        | Inr sorted_available \<Rightarrow>
            Inl (ValidationError
              [Lit ''Excel file missing required columns: '',
               Names (sorted_list_of_set
                 (set (required_columns self) - set [s. Txt s \<leftarrow> tcolumns df])),
               Lit ''. Available columns: '',
               Labels sorted_available]
              ''columns'')))"
proof -
  have r: "read fs self =
      (case validate_columns self df of Inl e \<Rightarrow> Inl e | Inr u \<Rightarrow> Inr df)"
    using assms(1) by (simp add: read_def check_file_exists_def read_excel_file_def)
  show ?thesis
  proof (cases "set (required_columns self) \<subseteq> set [s. Txt s \<leftarrow> tcolumns df]")
    case True
    then have "set (required_columns self) - set [s. Txt s \<leftarrow> tcolumns df] = {}" by blast
    then have "validate_columns self df = Inr ()"
      by (simp add: validate_columns_def)
    with True show ?thesis by (simp add: r)
  next
    case False
    then have "set (required_columns self) - set [s. Txt s \<leftarrow> tcolumns df] \<noteq> {}" by blast
    then show ?thesis
      using assms(2) False
      by (simp add: r validate_columns_def Let_def split: sum.splits)
  qed
qed

text \<open>
  C4 at a table with a numeric header cell. The workbook \<open>years.xlsx\<close> has the columns
  \<open>phone\<close> and 2024; with the required columns \<open>phone\<close> and \<open>status\<close> the name
  \<open>status\<close> is missing, and sorting the available columns for the message raises a
  \<^verbatim>\<open>TypeError\<close>, which leaves \<open>read\<close> in place of the \<^verbatim>\<open>ValidationError\<close>. With text
  labels only (\<open>phones.xlsx\<close>) the \<^verbatim>\<open>ValidationError\<close> is raised, and a table that
  has every required column is returned.
\<close>

theorem mixed_labels_raise_TypeError:
  "read phones_fs (ExcelReader_init ''data/input/years.xlsx'' (Some [''phone'', ''status''])) =
     Inl TypeError \<and>
   read phones_fs (ExcelReader_init ''data/input/phones.xlsx'' (Some [''status'', ''id'', ''age''])) =
     Inl (ValidationError
       [Lit ''Excel file missing required columns: '', Names [''age'', ''id''],
        Lit ''. Available columns: '', Labels [Txt ''phone'', Txt ''status'']] ''columns'') \<and>
   read phones_fs (ExcelReader_init ''data/input/years.xlsx'' (Some [''phone''])) =
     Inr \<lparr>tcolumns = [Txt ''phone'', Num 2024], trows = [[PStr ''0901'', PInt 7]]\<rparr>"
proof -
  have s1: "sorted_list_of_set (set [''status'', ''id'', ''age''] - set [''phone'', ''status'']) =
     [''age'', ''id'']"
    and s2: "sorted_list_of_set (set [''phone'', ''status'']) = [''phone'', ''status'']"
    and s3: "sorted_list_of_set ({} :: int set) = []"
    by code_simp+
  have ns: "\<not> set [''status'', ''id'', ''age''] \<subseteq> set [''phone'', ''status'']"
    by simp
  have a: "read phones_fs (ExcelReader_init ''data/input/years.xlsx'' (Some [''phone'', ''status''])) =
     Inl TypeError"
    by (subst read_on_table [where df = "\<lparr>tcolumns = [Txt ''phone'', Num 2024],
          trows = [[PStr ''0901'', PInt 7]]\<rparr>"])
       (simp_all add: phones_fs_def ExcelReader_init_def py_sorted_def)
  have b: "read phones_fs (ExcelReader_init ''data/input/phones.xlsx''
        (Some [''status'', ''id'', ''age''])) =
     Inl (ValidationError
       [Lit ''Excel file missing required columns: '', Names [''age'', ''id''],
        Lit ''. Available columns: '', Labels [Txt ''phone'', Txt ''status'']] ''columns'')"
    by (subst read_on_table [where df = "\<lparr>tcolumns = [Txt ''phone'', Txt ''status''],
          trows = [[PStr ''0901'', PStr ''ok'']]\<rparr>"])
       (simp_all add: phones_fs_def ExcelReader_init_def py_sorted_def s1 s2 s3 ns
          del: set_simps)
  have c: "read phones_fs (ExcelReader_init ''data/input/years.xlsx'' (Some [''phone''])) =
     Inr \<lparr>tcolumns = [Txt ''phone'', Num 2024], trows = [[PStr ''0901'', PInt 7]]\<rparr>"
    by (subst read_on_table [where df = "\<lparr>tcolumns = [Txt ''phone'', Num 2024],
          trows = [[PStr ''0901'', PInt 7]]\<rparr>"])
       (simp_all add: phones_fs_def ExcelReader_init_def)
  from a b c show ?thesis by simp
qed

end
